theory Spec2Isabelle
  imports Main "HOL-Library.Sublist"
begin

section \<open>Values, exceptions and the wire\<close>

text \<open>
  Python values that travel through the library are JSON values: what \<open>json=\<close> sends and
  what \<open>resp.json()\<close> returns. \<open>JNone\<close> is Python's \<open>None\<close>. A dict is an association
  list in insertion order. Strings are byte strings (UTF-8), which is what
  \<open>urllib.parse.quote\<close> works on after encoding.
\<close>

datatype json =
    JNone
  | JBool bool
  | JInt int
  | JStr string
  | JList "json list"
  | JDict "(string \<times> json) list"

text \<open>
  \<open>**kwargs\<close>: the keyword arguments that a method hands on unchanged, by name. They stand
  for the options that reach aiohttp (headers, timeout, ...); the names that Python would
  bind to a named parameter on the way, or reject as a duplicate (\<open>url\<close>, \<open>params\<close>,
  \<open>content_type\<close>, \<open>json\<close>, \<open>ssl\<close>, \<open>base_url\<close>), are not among them.
\<close>

type_synonym kwargs = "(string \<times> json) list"
type_synonym headers = "(string \<times> string) list"

text \<open>A parameter with a default value: left out by the caller, or given.\<close>

datatype 'a arg = Omitted | Given 'a

definition default :: "'a \<Rightarrow> 'a arg \<Rightarrow> 'a" where
  "default d a = (case a of Omitted \<Rightarrow> d | Given x \<Rightarrow> x)"

text \<open>
  The exceptions the code can meet. \<open>ClientResponseError\<close> is aiohttp's: it is built by
  \<open>raise_for_status\<close> from \<open>status\<close>, \<open>message\<close> (the reason phrase) and \<open>headers\<close>.
  \<open>ContentTypeError\<close> is its subclass, raised by \<open>resp.json\<close>. \<open>SystemExit\<close> is what
  \<open>sys.exit\<close> raises.
\<close>

datatype exc =
    ClientResponseError nat string headers
  | ContentTypeError nat string headers
  | JSONDecodeError
  | AttributeError
  | TypeError
  | RuntimeError
  | KeyError
  | IndexError
  | SystemExit int

text \<open>What \<open>except ClientResponseError\<close> catches: the class and its subclass.\<close>

fun is_ClientResponseError :: "exc \<Rightarrow> bool" where
  "is_ClientResponseError (ClientResponseError _ _ _) = True"
| "is_ClientResponseError (ContentTypeError _ _ _) = True"
| "is_ClientResponseError _ = False"

text \<open>
  The body of a response, as \<open>resp.json\<close> sees it: empty after stripping, the
  serialisation of a JSON value, or bytes that are no JSON document.
\<close>

datatype payload = Blank | Text json | Garbage

record response =
  resp_status :: nat
  resp_reason :: string
  resp_headers :: headers
  resp_body :: payload

datatype meth = GET | POST | DELETE

record request =
  req_method :: meth
  req_url :: string
  req_ssl :: "bool option"
  req_kwargs :: kwargs

text \<open>
  The backend answers the \<open>n\<close>-th request of a run (counted from 0) with a response.
  Connection failures are outside the model: every request gets a response.
\<close>

type_synonym backend = "nat \<Rightarrow> request \<Rightarrow> response"

text \<open>
  Everything observable is appended to one trace, in order: a connection context created
  or closed, a request sent on a context, a sleep of so many seconds, a line printed.
\<close>

datatype printed = PExc exc | PStr string

datatype event =
    Created nat string kwargs
  | Closed nat
  | Sent nat request
  | Sleep nat
  | Print printed

text \<open>
  The attribute \<open>self._session\<close>: never assigned (\<open>__init__\<close> does not set it), \<open>None\<close>
  (after \<open>__aexit__\<close>), or a live \<open>aiohttp.ClientSession\<close>, named by a number.
\<close>

datatype attr = Missing | PyNone | Client nat

text \<open>
  A session object together with the world it acts on. The first six fields are the
  attributes of \<open>BaseSession\<close>; \<open>next_id\<close> names the next connection context, \<open>served\<close>
  counts the requests the backend has answered.
\<close>

record state =
  self_url :: string
  self_definition :: string
  self_version :: string
  self_ssl :: "bool option"
  self_kwargs :: kwargs
  self_session :: attr
  next_id :: nat
  served :: nat
  trace :: "event list"

section \<open>\<open>urllib.parse.urlencode\<close>\<close>

text \<open>
  The standard library's \<open>quote\<close>, \<open>quote_plus\<close> and \<open>urlencode\<close> for string keys and
  values: a byte is kept when it is ASCII and always safe or listed in \<open>safe\<close>, and
  written as \<open>%XX\<close> (upper-case hexadecimal) otherwise; \<open>quote_plus\<close> quotes with the
  space added to \<open>safe\<close> and then replaces every space by \<open>+\<close>; \<open>urlencode\<close> joins
  \<open>key=value\<close> with \<open>&\<close>, and rejects what is no mapping (here: \<open>None\<close>).
\<close>

definition always_safe :: "char \<Rightarrow> bool" where
  "always_safe c \<longleftrightarrow>
     c \<in> set ''ABCDEFGHIJKLMNOPQRSTUVWXYZabcdefghijklmnopqrstuvwxyz0123456789_.-~''"

definition hex_digit :: "nat \<Rightarrow> char" where
  "hex_digit n = ''0123456789ABCDEF'' ! (n mod 16)"

definition percent :: "char \<Rightarrow> string" where
  "percent c = [CHR ''%'', hex_digit ((of_char c :: nat) div 16), hex_digit (of_char c :: nat)]"

definition quoter :: "string \<Rightarrow> char \<Rightarrow> string" where
  "quoter safe c =
     (if (of_char c :: nat) < 128 \<and> (always_safe c \<or> c \<in> set safe) then [c] else percent c)"

definition quote :: "string \<Rightarrow> string \<Rightarrow> string" where
  "quote string safe = concat (map (quoter safe) string)"

definition quote_plus :: "string \<Rightarrow> string \<Rightarrow> string" where
  "quote_plus string safe =
     (if CHR '' '' \<notin> set string then quote string safe
      else map (\<lambda>c. if c = CHR '' '' then CHR ''+'' else c) (quote string (safe @ '' '')))"

fun join_amp :: "string list \<Rightarrow> string" where
  "join_amp [] = []"
| "join_amp [x] = x"
| "join_amp (x # y # ys) = x @ ''&'' @ join_amp (y # ys)"

definition encode_items :: "(string \<times> string) list \<Rightarrow> string \<Rightarrow> string" where
  "encode_items items safe =
     join_amp (map (\<lambda>(k, v). quote_plus k safe @ ''='' @ quote_plus v safe) items)"

definition urlencode :: "(string \<times> string) list option \<Rightarrow> string \<Rightarrow> exc + string" where
  "urlencode query safe =
     (case query of
        None \<Rightarrow> Inl TypeError
      | Some items \<Rightarrow> Inr (encode_items items safe))"

section \<open>The aiohttp client, as the library uses it\<close>

text \<open>
  \<open>ClientSession.get/post/delete\<close>: a closed client refuses with \<open>RuntimeError\<close>;
  otherwise the request goes out and the backend's answer comes back.
\<close>

definition sent :: "nat \<Rightarrow> request \<Rightarrow> state \<Rightarrow> state" where
  "sent c rq s = s\<lparr>served := Suc (served s), trace := trace s @ [Sent c rq]\<rparr>"

definition client_request ::
  "backend \<Rightarrow> nat \<Rightarrow> meth \<Rightarrow> string \<Rightarrow> bool option \<Rightarrow> kwargs \<Rightarrow> state \<Rightarrow> (exc + response) \<times> state"
where
  "client_request srv c m u sslv kw s =
     (if Closed c \<in> set (trace s) then (Inl RuntimeError, s)
      else
        let rq = \<lparr>req_method = m, req_url = u, req_ssl = sslv, req_kwargs = kw\<rparr>
        in (Inr (srv (served s) rq), sent c rq s))"

text \<open>
  \<open>ClientResponse.raise_for_status\<close>: \<open>ok\<close> is \<open>400 > status\<close>; otherwise
  \<open>ClientResponseError(request_info, history, status=status, message=reason,
  headers=headers)\<close> is raised. The body is not read and is not part of the error.
\<close>

definition raise_for_status :: "response \<Rightarrow> exc + unit" where
  "raise_for_status r =
     (if 400 > resp_status r then Inr ()
      else Inl (ClientResponseError (resp_status r) (resp_reason r) (resp_headers r)))"

text \<open>
  \<open>ClientResponse.json(content_type=...)\<close>: when a content type is declared (a non-empty
  string), the lower-cased \<open>Content-Type\<close> header (\<open>''''\<close> when absent; header names
  compare without case) must be the expected one, or \<open>ContentTypeError\<close> is raised; for
  \<open>application/json\<close> the header is matched against
  \<open>^application/(?:[\w.+-]+?\+)?json\<close>, for any other declared type it must contain it.
  Then an empty body gives \<open>None\<close> and anything else goes to the JSON decoder.
\<close>

definition lower_char :: "char \<Rightarrow> char" where
  "lower_char c =
     (let n = (of_char c :: nat) in if 65 \<le> n \<and> n \<le> 90 then char_of (n + 32) else c)"

definition lower :: "string \<Rightarrow> string" where
  "lower s = map lower_char s"

definition header_get :: "headers \<Rightarrow> string \<Rightarrow> string \<Rightarrow> string" where
  "header_get hs key dflt =
     (case find (\<lambda>(k, v). lower k = lower key) hs of None \<Rightarrow> dflt | Some (k, v) \<Rightarrow> v)"

fun contains :: "string \<Rightarrow> string \<Rightarrow> bool" where
  "contains [] sub = (sub = [])"
| "contains (c # cs) sub = (prefix sub (c # cs) \<or> contains cs sub)"

definition word_char :: "char \<Rightarrow> bool" where
  "word_char c \<longleftrightarrow>
     c \<in> set ''ABCDEFGHIJKLMNOPQRSTUVWXYZabcdefghijklmnopqrstuvwxyz0123456789_''"

definition json_re_match :: "string \<Rightarrow> bool" where
  "json_re_match s \<longleftrightarrow>
     prefix ''application/'' s \<and>
     (let rest = drop 12 s
      in prefix ''json'' rest \<or>
         list_ex (\<lambda>i. list_all (\<lambda>c. word_char c \<or> c \<in> set ''.+-'') (take i rest) \<and>
                      rest ! i = CHR ''+'' \<and> prefix ''json'' (drop (Suc i) rest))
                 [1 ..< length rest])"

definition is_expected_content_type :: "string \<Rightarrow> string \<Rightarrow> bool" where
  "is_expected_content_type response_content_type expected_content_type =
     (if expected_content_type = ''application/json'' then json_re_match response_content_type
      else contains response_content_type expected_content_type)"

definition response_json :: "response \<Rightarrow> string option \<Rightarrow> exc + json" where
  "response_json r content_type =
     (let ctype = lower (header_get (resp_headers r) ''Content-Type'' '''');
          mismatch =
            (case content_type of
               None \<Rightarrow> False
             | Some ct \<Rightarrow> ct \<noteq> [] \<and> \<not> is_expected_content_type ctype ct)
      in if mismatch
         then Inl (ContentTypeError (resp_status r)
                     (''Attempt to decode JSON with unexpected mimetype: '' @ ctype)
                     (resp_headers r))
         else (case resp_body r of
                 Blank \<Rightarrow> Inr JNone
               | Text j \<Rightarrow> Inr j
               | Garbage \<Rightarrow> Inl JSONDecodeError))"

section \<open>\<open>BaseSession\<close>\<close>

text \<open>
  \<open>__init__(url, definition, version, ssl=True, **kwargs)\<close> stores its arguments;
  \<open>_session\<close> is not assigned. The object starts in a world where nothing has happened.
\<close>

definition BaseSession ::
  "string \<Rightarrow> string \<Rightarrow> string \<Rightarrow> bool option arg \<Rightarrow> kwargs \<Rightarrow> state"
where
  "BaseSession url definition' version sslv kw =
     \<lparr>self_url = url, self_definition = definition', self_version = version,
      self_ssl = default (Some True) sslv, self_kwargs = kw, self_session = Missing,
      next_id = 0, served = 0, trace = []\<rparr>"

text \<open>
  \<open>__aenter__\<close>: \<open>self._session = aiohttp.ClientSession(base_url=self.url,
  **self._kwargs)\<close>, a new connection context each time.
\<close>

definition aenter :: "state \<Rightarrow> (exc + unit) \<times> state" where
  "aenter s =
     (Inr (),
      s\<lparr>self_session := Client (next_id s),
        next_id := Suc (next_id s),
        trace := trace s @ [Created (next_id s) (self_url s) (self_kwargs s)]\<rparr>)"

text \<open>
  \<open>__aexit__(*err)\<close>: \<open>await self._session.close()\<close>, then \<open>self._session = None\<close>;
  the exception details are ignored and nothing is returned, so an exception of the body
  is not suppressed. Closing a client that is closed already does nothing.
\<close>

definition aexit :: "state \<Rightarrow> (exc + unit) \<times> state" where
  "aexit s =
     (case self_session s of
        Missing \<Rightarrow> (Inl AttributeError, s)
      | PyNone \<Rightarrow> (Inl AttributeError, s)
      | Client c \<Rightarrow>
          (Inr (),
           s\<lparr>self_session := PyNone,
             trace := (if Closed c \<in> set (trace s) then trace s else trace s @ [Closed c])\<rparr>))"

definition endpoint :: "state \<Rightarrow> string" where
  "endpoint s = ''/'' @ self_definition s @ ''/'' @ self_version s"

text \<open>
  The three verbs. Each looks \<open>self._session\<close> up (an \<open>AttributeError\<close> when it is
  missing or \<open>None\<close>), calls the client with \<open>url=url, ssl=self.ssl, **kwargs\<close>, and
  then runs the body they share, \<open>resp.raise_for_status()\<close> and
  \<open>return await resp.json(content_type=content_type)\<close>, which is \<open>finish\<close>.
  The defaults are \<open>params={}\<close> and \<open>content_type="application/json"\<close>.
\<close>

definition default_params :: "(string \<times> string) list option" where
  "default_params = Some []"

definition default_content_type :: "string option" where
  "default_content_type = Some ''application/json''"

definition finish :: "string option \<Rightarrow> (exc + response) \<times> state \<Rightarrow> (exc + json) \<times> state" where
  "finish content_type rs =
     (case rs of
        (Inl e, s1) \<Rightarrow> (Inl e, s1)
      | (Inr resp, s1) \<Rightarrow>
          (case raise_for_status resp of
             Inl e \<Rightarrow> (Inl e, s1)
           | Inr _ \<Rightarrow> (response_json resp content_type, s1)))"

text \<open>\<open>url = f'{url}?{params_str}' if params_str else url\<close>\<close>

definition with_query :: "string \<Rightarrow> string \<Rightarrow> string" where
  "with_query url params_str = (if params_str \<noteq> [] then url @ ''?'' @ params_str else url)"

definition get ::
  "backend \<Rightarrow> string \<Rightarrow> (string \<times> string) list option \<Rightarrow> string option \<Rightarrow> kwargs \<Rightarrow> state
     \<Rightarrow> (exc + json) \<times> state"
where
  "get srv url params content_type kw s =
     (case urlencode params ''+'()'' of
        Inl e \<Rightarrow> (Inl e, s)
      | Inr params_str \<Rightarrow>
          let url1 = endpoint s @ url;
              url2 = with_query url1 params_str
          in (case self_session s of
                Missing \<Rightarrow> (Inl AttributeError, s)
              | PyNone \<Rightarrow> (Inl AttributeError, s)
              | Client c \<Rightarrow>
                  finish content_type (client_request srv c GET url2 (self_ssl s) kw s)))"

definition post ::
  "backend \<Rightarrow> string \<Rightarrow> string option \<Rightarrow> kwargs \<Rightarrow> state \<Rightarrow> (exc + json) \<times> state"
where
  "post srv url content_type kw s =
     (let url1 = endpoint s @ url
      in (case self_session s of
            Missing \<Rightarrow> (Inl AttributeError, s)
          | PyNone \<Rightarrow> (Inl AttributeError, s)
          | Client c \<Rightarrow>
              finish content_type (client_request srv c POST url1 (self_ssl s) kw s)))"

definition delete ::
  "backend \<Rightarrow> string \<Rightarrow> string option \<Rightarrow> kwargs \<Rightarrow> state \<Rightarrow> (exc + json) \<times> state"
where
  "delete srv url content_type kw s =
     (let url1 = endpoint s @ url
      in (case self_session s of
            Missing \<Rightarrow> (Inl AttributeError, s)
          | PyNone \<Rightarrow> (Inl AttributeError, s)
          | Client c \<Rightarrow>
              finish content_type (client_request srv c DELETE url1 (self_ssl s) kw s)))"

section \<open>Formatting and subscripts\<close>

text \<open>What an f-string writes for an \<open>int\<close>: its decimal digits, with a sign when negative.\<close>

fun str_nat :: "nat \<Rightarrow> string" where
  "str_nat n =
     (if n < 10 then [''0123456789'' ! n]
      else str_nat (n div 10) @ [''0123456789'' ! (n mod 10)])"

declare str_nat.simps [simp del]

definition str_int :: "int \<Rightarrow> string" where
  "str_int i = (if i < 0 then ''-'' @ str_nat (nat (- i)) else str_nat (nat i))"

text \<open>\<open>email_or_id: Union[int, str]\<close> and what \<open>f'{email_or_id}'\<close> writes for it.\<close>

datatype int_or_str = IntVal int | StrVal string

fun format :: "int_or_str \<Rightarrow> string" where
  "format (IntVal i) = str_int i"
| "format (StrVal x) = x"

text \<open>
  \<open>response['list']\<close>: a dict is looked up (\<open>KeyError\<close> when the key is absent; keys of
  a dict are unique), anything else cannot be indexed by a string (\<open>TypeError\<close>).
\<close>

fun subscript_key :: "json \<Rightarrow> string \<Rightarrow> exc + json" where
  "subscript_key (JDict kvs) k = (case map_of kvs k of None \<Rightarrow> Inl KeyError | Some v \<Rightarrow> Inr v)"
| "subscript_key _ k = Inl TypeError"

text \<open>
  \<open>x[0]\<close>: the first element of a list or the first character of a string (a UTF-8
  sequence of one to four bytes), \<open>IndexError\<close> when there is none; a dict decoded from
  JSON has no key \<open>0\<close> (\<open>KeyError\<close>); \<open>None\<close>, booleans and numbers are not
  subscriptable (\<open>TypeError\<close>).
\<close>

definition utf8_len :: "char \<Rightarrow> nat" where
  "utf8_len c =
     (let n = (of_char c :: nat)
      in if n < 192 then 1 else if n < 224 then 2 else if n < 240 then 3 else 4)"

fun subscript_zero :: "json \<Rightarrow> exc + json" where
  "subscript_zero (JList []) = Inl IndexError"
| "subscript_zero (JList (x # xs)) = Inr x"
| "subscript_zero (JStr []) = Inl IndexError"
| "subscript_zero (JStr (c # cs)) = Inr (JStr (take (utf8_len c) (c # cs)))"
| "subscript_zero (JDict kvs) = Inl KeyError"
| "subscript_zero _ = Inl TypeError"

section \<open>\<open>AuthSession\<close>\<close>

text \<open>
  The subclasses only fix the defaults of \<open>definition\<close> and \<open>version\<close>; \<open>ssl\<close>, when
  given, travels in \<open>**kwargs\<close> to \<open>BaseSession.__init__\<close>, which binds it.
\<close>

definition AuthSession ::
  "string \<Rightarrow> string arg \<Rightarrow> string arg \<Rightarrow> bool option arg \<Rightarrow> kwargs \<Rightarrow> state"
where
  "AuthSession url definition' version sslv kw =
     BaseSession url (default ''auth'' definition') (default ''v4'' version) sslv kw"

definition get_key :: "backend \<Rightarrow> int_or_str \<Rightarrow> kwargs \<Rightarrow> state \<Rightarrow> (exc + json) \<times> state" where
  "get_key srv email_or_id kw s =
     post srv (''/user/'' @ format email_or_id @ ''/key'') default_content_type kw s"

definition sleep :: "nat \<Rightarrow> state \<Rightarrow> state" where
  "sleep n s = s\<lparr>trace := trace s @ [Sleep n]\<rparr>"

definition print :: "printed \<Rightarrow> state \<Rightarrow> state" where
  "print x s = s\<lparr>trace := trace s @ [Print x]\<rparr>"

definition token_kwargs :: "string \<Rightarrow> string \<Rightarrow> kwargs \<Rightarrow> kwargs" where
  "token_kwargs email password kw =
     (''json'', JDict [(''email'', JStr email), (''password'', JStr password)]) # kw"

text \<open>
  \<open>get_token(email, password, attempts=3, **kwargs)\<close>. The loop runs while \<open>attempts\<close>
  is non-zero, so it need not end (a negative count never reaches zero while the backend
  keeps failing): the result is an option, \<open>None\<close> for a call that does not return.
  Falling out of the loop returns Python's \<open>None\<close>. An exception of the POST that is no
  \<open>ClientResponseError\<close> leaves the method at once.
\<close>

partial_function (option) get_token ::
  "backend \<Rightarrow> string \<Rightarrow> string \<Rightarrow> int \<Rightarrow> kwargs \<Rightarrow> state \<Rightarrow> ((exc + json) \<times> state) option"
where
  "get_token srv email password attempts kw s =
     (if attempts \<noteq> 0 then
        (case post srv ''/public/token'' None (token_kwargs email password kw) s of
           (Inr response, s1) \<Rightarrow> Some (Inr response, s1)
         | (Inl error, s1) \<Rightarrow>
             if is_ClientResponseError error then
               (let s2 = sleep 1 s1;
                    attempts1 = attempts - 1
                in if attempts1 = 0 then
                     Some (Inl (SystemExit 1),
                           print (PStr ''attempts to get an auth token have been exhausted.'')
                             (print (PExc error) s2))
                   else get_token srv email password attempts1 kw s2)
             else Some (Inl error, s1))
      else Some (Inr JNone, s))"

definition whoami :: "backend \<Rightarrow> kwargs \<Rightarrow> state \<Rightarrow> (exc + json) \<times> state" where
  "whoami srv kw s = get srv ''/whoami'' default_params default_content_type kw s"

section \<open>\<open>DnsProxySession\<close>, \<open>IpSession\<close>, \<open>VmSession\<close>\<close>

definition DnsProxySession ::
  "string \<Rightarrow> string arg \<Rightarrow> string arg \<Rightarrow> bool option arg \<Rightarrow> kwargs \<Rightarrow> state"
where
  "DnsProxySession url definition' version sslv kw =
     BaseSession url (default ''dnsproxy'' definition') (default ''v3'' version) sslv kw"

definition IpSession ::
  "string \<Rightarrow> string arg \<Rightarrow> string arg \<Rightarrow> bool option arg \<Rightarrow> kwargs \<Rightarrow> state"
where
  "IpSession url definition' version sslv kw =
     BaseSession url (default ''ip'' definition') (default ''v3'' version) sslv kw"

definition VmSession ::
  "string \<Rightarrow> string arg \<Rightarrow> string arg \<Rightarrow> bool option arg \<Rightarrow> kwargs \<Rightarrow> state"
where
  "VmSession url definition' version sslv kw =
     BaseSession url (default ''vm'' definition') (default ''v3'' version) sslv kw"

definition get_task :: "backend \<Rightarrow> int \<Rightarrow> kwargs \<Rightarrow> state \<Rightarrow> (exc + json) \<times> state" where
  "get_task srv task_id kw s =
     get srv (''/task/'' @ str_int task_id) default_params default_content_type kw s"

definition get_task_by_consul_id ::
  "backend \<Rightarrow> int \<Rightarrow> kwargs \<Rightarrow> state \<Rightarrow> (exc + json) \<times> state"
where
  "get_task_by_consul_id srv consul_id kw s =
     (case get srv ''/task'' (Some [(''where'', ''consul_id+EQ+'' @ str_int consul_id)])
             default_content_type kw s of
        (Inl e, s1) \<Rightarrow> (Inl e, s1)
      | (Inr response, s1) \<Rightarrow>
          (case subscript_key response ''list'' of
             Inl e \<Rightarrow> (Inl e, s1)
           | Inr l \<Rightarrow> (subscript_zero l, s1)))"

definition host_create :: "backend \<Rightarrow> json \<Rightarrow> kwargs \<Rightarrow> state \<Rightarrow> (exc + json) \<times> state" where
  "host_create srv host_params kw s =
     post srv ''/host'' default_content_type ((''json'', host_params) # kw) s"

definition host_delete :: "backend \<Rightarrow> int \<Rightarrow> kwargs \<Rightarrow> state \<Rightarrow> (exc + json) \<times> state" where
  "host_delete srv host_id kw s =
     delete srv (''/host/'' @ str_int host_id) default_content_type kw s"

definition host_edit :: "backend \<Rightarrow> int \<Rightarrow> json \<Rightarrow> kwargs \<Rightarrow> state \<Rightarrow> (exc + json) \<times> state" where
  "host_edit srv host_id host_params kw s =
     post srv (''/host/'' @ str_int host_id) default_content_type ((''json'', host_params) # kw) s"

section \<open>\<open>async with\<close>\<close>

text \<open>
  \<open>async with session: body\<close> in Python: \<open>__aenter__\<close>, then the body, then
  \<open>__aexit__\<close> whether the body returned or raised; \<open>__aexit__\<close> returns \<open>None\<close>, so an
  exception of the body goes on to the caller. A body is a sequence of calls of the
  verbs, which stops at the first exception.
\<close>

datatype call =
    Get string "(string \<times> string) list option" "string option" kwargs
  | Post string "string option" kwargs
  | Delete string "string option" kwargs

fun run_call :: "backend \<Rightarrow> call \<Rightarrow> state \<Rightarrow> (exc + json) \<times> state" where
  "run_call srv (Get url params content_type kw) s = get srv url params content_type kw s"
| "run_call srv (Post url content_type kw) s = post srv url content_type kw s"
| "run_call srv (Delete url content_type kw) s = delete srv url content_type kw s"

fun run_body :: "backend \<Rightarrow> call list \<Rightarrow> state \<Rightarrow> (exc + json list) \<times> state" where
  "run_body srv [] s = (Inr [], s)"
| "run_body srv (c # cs) s =
     (case run_call srv c s of
        (Inl e, s1) \<Rightarrow> (Inl e, s1)
      | (Inr v, s1) \<Rightarrow>
          (case run_body srv cs s1 of
             (Inl e, s2) \<Rightarrow> (Inl e, s2)
           | (Inr vs, s2) \<Rightarrow> (Inr (v # vs), s2)))"

definition async_with :: "(state \<Rightarrow> (exc + 'a) \<times> state) \<Rightarrow> state \<Rightarrow> (exc + 'a) \<times> state" where
  "async_with body s =
     (case aenter s of
        (Inl e, s1) \<Rightarrow> (Inl e, s1)
      | (Inr _, s1) \<Rightarrow>
          (case body s1 of
             (r, s2) \<Rightarrow>
               (case aexit s2 of
                  (Inl e, s3) \<Rightarrow> (Inl e, s3)
                | (Inr _, s3) \<Rightarrow> (r, s3))))"

section \<open>Notions for stating the properties\<close>

text \<open>The request that one attempt of \<open>get_token\<close> sends.\<close>

definition token_request :: "state \<Rightarrow> string \<Rightarrow> string \<Rightarrow> kwargs \<Rightarrow> request" where
  "token_request s email password kw =
     \<lparr>req_method = POST, req_url = endpoint s @ ''/public/token'', req_ssl = self_ssl s,
      req_kwargs = token_kwargs email password kw\<rparr>"

text \<open>A session of the authentication service, entered once, and two backends.\<close>

definition demo_auth :: state where
  "demo_auth = snd (aenter (AuthSession ''https://vm.example.com'' Omitted Omitted Omitted []))"

definition unavailable :: response where
  "unavailable =
     \<lparr>resp_status = 503, resp_reason = ''Service Unavailable'', resp_headers = [],
      resp_body = Blank\<rparr>"

definition token_body :: json where
  "token_body = JDict [(''token'', JStr ''t0k3n'')]"

definition backend_wakes :: backend where
  "backend_wakes n rq =
     (if n < 2 then unavailable
      else \<lparr>resp_status = 200, resp_reason = ''OK'', resp_headers = [],
             resp_body = Text token_body\<rparr>)"

definition backend_down :: backend where
  "backend_down n rq = unavailable"

text \<open>How many sleeps, and how many requests, a trace holds.\<close>

definition delays :: "event list \<Rightarrow> nat" where
  "delays tr = length (filter (\<lambda>e. case e of Sleep n \<Rightarrow> True | _ \<Rightarrow> False) tr)"

definition attempts_made :: "event list \<Rightarrow> nat" where
  "attempts_made tr = length (filter (\<lambda>e. case e of Sent c rq \<Rightarrow> True | _ \<Rightarrow> False) tr)"

text \<open>The request a verb sends for a relative path, in a session.\<close>

definition request_of :: "meth \<Rightarrow> state \<Rightarrow> string \<Rightarrow> kwargs \<Rightarrow> request" where
  "request_of m s path kw =
     \<lparr>req_method = m, req_url = endpoint s @ path, req_ssl = self_ssl s, req_kwargs = kw\<rparr>"

text \<open>
  The declared content type lets a response through: none is declared (\<open>None\<close> or the
  empty string), or the response's \<open>Content-Type\<close> header is the expected one.
\<close>

definition content_type_accepted :: "string option \<Rightarrow> response \<Rightarrow> bool" where
  "content_type_accepted content_type r =
     (case content_type of
        None \<Rightarrow> True
      | Some ct \<Rightarrow>
          ct = [] \<or>
          is_expected_content_type
            (lower (header_get (resp_headers r) ''Content-Type'' '''')) ct)"

text \<open>A session of the vm service, entered once, and backends that answer 404 or HTML.\<close>

definition demo_vm :: state where
  "demo_vm = snd (aenter (VmSession ''https://vm.example.com'' Omitted Omitted Omitted []))"

definition error_json :: json where
  "error_json = JDict [(''error'', JStr ''not found'')]"

definition backend_404 :: "payload \<Rightarrow> backend" where
  "backend_404 b n rq =
     \<lparr>resp_status = 404, resp_reason = ''Not Found'',
      resp_headers = [(''Content-Type'', ''application/json'')], resp_body = b\<rparr>"

definition backend_html :: backend where
  "backend_html n rq =
     \<lparr>resp_status = 200, resp_reason = ''OK'',
      resp_headers = [(''Content-Type'', ''text/html'')], resp_body = Text error_json\<rparr>"

text \<open>The paths of the requests in a trace, in the order they were sent.\<close>

fun sent_urls :: "event list \<Rightarrow> string list" where
  "sent_urls [] = []"
| "sent_urls (Sent c rq # es) = req_url rq # sent_urls es"
| "sent_urls (e # es) = sent_urls es"

text \<open>A path holds two slashes in a row; a path segment is not empty and holds no slash.\<close>

fun double_slash :: "string \<Rightarrow> bool" where
  "double_slash (a # b # cs) \<longleftrightarrow> (a = CHR ''/'' \<and> b = CHR ''/'') \<or> double_slash (b # cs)"
| "double_slash _ \<longleftrightarrow> False"

definition plain_segment :: "string \<Rightarrow> bool" where
  "plain_segment x \<longleftrightarrow> x \<noteq> [] \<and> CHR ''/'' \<notin> set x"

text \<open>A backend that answers 200 with a JSON document.\<close>

definition backend_json :: "json \<Rightarrow> backend" where
  "backend_json b n rq =
     \<lparr>resp_status = 200, resp_reason = ''OK'',
      resp_headers = [(''Content-Type'', ''application/json'')], resp_body = Text b\<rparr>"

text \<open>
  Every connection context named in the trace was created earlier: its number is below
  \<open>next_id\<close>. A new session is of this kind, and entering a session keeps it so.
\<close>

fun known_by :: "nat \<Rightarrow> event \<Rightarrow> bool" where
  "known_by n (Created c url kw) \<longleftrightarrow> c < n"
| "known_by n (Closed c) \<longleftrightarrow> c < n"
| "known_by n (Sent c rq) \<longleftrightarrow> c < n"
| "known_by n _ \<longleftrightarrow> True"

definition well_formed :: "state \<Rightarrow> bool" where
  "well_formed s \<longleftrightarrow> list_all (known_by (next_id s)) (trace s)"

fun is_Sent :: "event \<Rightarrow> bool" where
  "is_Sent (Sent c rq) \<longleftrightarrow> True"
| "is_Sent _ \<longleftrightarrow> False"

text \<open>A body of verb calls only appends requests to the trace and leaves the rest.\<close>

definition only_sends :: "state \<Rightarrow> state \<Rightarrow> bool" where
  "only_sends s s' \<longleftrightarrow>
     self_session s' = self_session s \<and> next_id s' = next_id s \<and>
     (\<exists>evs. trace s' = trace s @ evs \<and> list_all is_Sent evs)"

text \<open>A session of the vm service that has not been entered, and a body of two calls.\<close>

definition demo_new :: state where
  "demo_new = VmSession ''https://vm.example.com'' Omitted Omitted Omitted []"

definition demo_calls :: "call list" where
  "demo_calls =
     [Get ''/task/1'' default_params default_content_type [],
      Delete ''/host/1'' default_content_type []]"

text \<open>A session whose definition and version are both the empty string, entered once.\<close>

definition demo_blank :: state where
  "demo_blank = snd (aenter (BaseSession ''https://vm.example.com'' [] [] Omitted []))"

text \<open>The session configuration: what \<open>__init__\<close> stored.\<close>

definition config :: "state \<Rightarrow> string \<times> string \<times> string \<times> bool option \<times> kwargs" where
  "config s = (self_url s, self_definition s, self_version s, self_ssl s, self_kwargs s)"

section \<open>Facts about the verbs\<close>

lemma finish_error:
  "400 \<le> resp_status r \<Longrightarrow>
   finish ct (Inr r, s) =
     (Inl (ClientResponseError (resp_status r) (resp_reason r) (resp_headers r)), s)"
  by (simp add: finish_def raise_for_status_def)

lemma finish_ok: "resp_status r < 400 \<Longrightarrow> finish ct (Inr r, s) = (response_json r ct, s)"
  by (simp add: finish_def raise_for_status_def)

lemma response_json_undeclared:
  "response_json r None =
     (case resp_body r of Blank \<Rightarrow> Inr JNone | Text j \<Rightarrow> Inr j | Garbage \<Rightarrow> Inl JSONDecodeError)"
  by (simp add: response_json_def)

lemma post_live:
  assumes "self_session s = Client c" and "Closed c \<notin> set (trace s)"
  shows "post srv url ct kw s =
     finish ct
       (Inr (srv (served s)
               \<lparr>req_method = POST, req_url = endpoint s @ url, req_ssl = self_ssl s,
                req_kwargs = kw\<rparr>),
        sent c \<lparr>req_method = POST, req_url = endpoint s @ url, req_ssl = self_ssl s,
                req_kwargs = kw\<rparr> s)"
  using assms by (simp add: post_def client_request_def Let_def)

lemma sent_fields [simp]:
  "self_session (sent c rq s) = self_session s"
  "served (sent c rq s) = Suc (served s)"
  "trace (sent c rq s) = trace s @ [Sent c rq]"
  "endpoint (sent c rq s) = endpoint s"
  "self_ssl (sent c rq s) = self_ssl s"
  by (simp_all add: sent_def endpoint_def)

lemma sleep_fields [simp]:
  "self_session (sleep n s) = self_session s"
  "served (sleep n s) = served s"
  "trace (sleep n s) = trace s @ [Sleep n]"
  "endpoint (sleep n s) = endpoint s"
  "self_ssl (sleep n s) = self_ssl s"
  by (simp_all add: sleep_def endpoint_def)

lemma print_fields [simp]:
  "self_session (print x s) = self_session s"
  "served (print x s) = served s"
  "trace (print x s) = trace s @ [Print x]"
  "endpoint (print x s) = endpoint s"
  "self_ssl (print x s) = self_ssl s"
  by (simp_all add: print_def endpoint_def)

lemma token_request_step [simp]:
  "token_request (sent c rq s) e p kw = token_request s e p kw"
  "token_request (sleep n s) e p kw = token_request s e p kw"
  by (simp_all add: token_request_def)

section \<open>The retry loop of \<open>get_token\<close>\<close>

text \<open>One turn of the loop, in its three outcomes.\<close>

lemma get_token_fail_step:
  assumes "self_session s = Client c" and "Closed c \<notin> set (trace s)"
    and "400 \<le> resp_status (srv (served s) (token_request s email password kw))"
    and "attempts \<noteq> 0" and "attempts \<noteq> 1"
  shows "get_token srv email password attempts kw s =
         get_token srv email password (attempts - 1) kw
           (sleep 1 (sent c (token_request s email password kw) s))"
  using assms
  by (subst get_token.simps) (simp add: post_live finish_error token_request_def Let_def)

lemma get_token_ok_step:
  assumes "self_session s = Client c" and "Closed c \<notin> set (trace s)"
    and "resp_status (srv (served s) (token_request s email password kw)) < 400"
    and "resp_body (srv (served s) (token_request s email password kw)) = Text j"
    and "attempts \<noteq> 0"
  shows "get_token srv email password attempts kw s =
         Some (Inr j, sent c (token_request s email password kw) s)"
  using assms
  by (subst get_token.simps)
     (simp add: post_live finish_ok response_json_undeclared token_request_def)

lemma get_token_last_step:
  assumes "self_session s = Client c" and "Closed c \<notin> set (trace s)"
    and "400 \<le> resp_status (srv (served s) (token_request s email password kw))"
  shows "get_token srv email password 1 kw s =
         Some (Inl (SystemExit 1),
           print (PStr ''attempts to get an auth token have been exhausted.'')
             (print (PExc (ClientResponseError
                 (resp_status (srv (served s) (token_request s email password kw)))
                 (resp_reason (srv (served s) (token_request s email password kw)))
                 (resp_headers (srv (served s) (token_request s email password kw)))))
               (sleep 1 (sent c (token_request s email password kw) s))))"
  using assms
  by (subst get_token.simps) (simp add: post_live finish_error token_request_def Let_def)

text \<open>
  C1. In an entered session, let the backend answer the first two POSTs of
  \<open>/public/token\<close> with a status of 400 or more (503, say) and the third with a 2xx
  status and a JSON body \<open>j\<close>. Then \<open>get_token\<close> with \<open>attempts = 3\<close> goes on as with 2
  attempts left after one request and one sleep, then as with 1 attempt left after a
  second request and a second sleep, and there the third request succeeds and \<open>j\<close> is
  returned: the trace gains three requests with exactly two sleeps of one second
  between them.
\<close>

theorem get_token_two_failures_then_success:
  assumes "self_session s = Client c" and "Closed c \<notin> set (trace s)"
    and "rq = token_request s email password kw"
    and "400 \<le> resp_status (srv (served s) rq)"
    and "400 \<le> resp_status (srv (served s + 1) rq)"
    and "200 \<le> resp_status (srv (served s + 2) rq) \<and> resp_status (srv (served s + 2) rq) < 300"
    and "resp_body (srv (served s + 2) rq) = Text j"
  shows "get_token srv email password 3 kw s =
           get_token srv email password 2 kw (sleep 1 (sent c rq s)) \<and>
         get_token srv email password 2 kw (sleep 1 (sent c rq s)) =
           get_token srv email password 1 kw (sleep 1 (sent c rq (sleep 1 (sent c rq s)))) \<and>
         get_token srv email password 1 kw (sleep 1 (sent c rq (sleep 1 (sent c rq s)))) =
           Some (Inr j, sent c rq (sleep 1 (sent c rq (sleep 1 (sent c rq s))))) \<and>
         trace (sent c rq (sleep 1 (sent c rq (sleep 1 (sent c rq s))))) =
           trace s @ [Sent c rq, Sleep 1, Sent c rq, Sleep 1, Sent c rq]"
proof -
  let ?s1 = "sleep 1 (sent c rq s)"
  let ?s2 = "sleep 1 (sent c rq ?s1)"
  have first: "get_token srv email password 3 kw s = get_token srv email password 2 kw ?s1"
    using get_token_fail_step [of s c srv email password kw 3] assms by simp
  have second: "get_token srv email password 2 kw ?s1 = get_token srv email password 1 kw ?s2"
    using get_token_fail_step [of ?s1 c srv email password kw 2] assms by simp
  have third: "get_token srv email password 1 kw ?s2 = Some (Inr j, sent c rq ?s2)"
    using get_token_ok_step [of ?s2 c srv email password kw j 1] assms by simp
  show ?thesis using first second third by simp
qed

theorem get_token_two_failures_then_success_witness:
  "self_session demo_auth = Client 0 \<and> Closed 0 \<notin> set (trace demo_auth) \<and>
   400 \<le> resp_status (backend_wakes (served demo_auth)
            (token_request demo_auth ''admin@example.com'' ''secret'' [])) \<and>
   get_token backend_wakes ''admin@example.com'' ''secret'' 3 [] demo_auth =
     Some (Inr token_body,
           sent 0 (token_request demo_auth ''admin@example.com'' ''secret'' [])
             (sleep 1 (sent 0 (token_request demo_auth ''admin@example.com'' ''secret'' [])
               (sleep 1 (sent 0 (token_request demo_auth ''admin@example.com'' ''secret'' [])
                  demo_auth)))))"
  using get_token_two_failures_then_success
    [of demo_auth 0 "token_request demo_auth ''admin@example.com'' ''secret'' []"
        "''admin@example.com''" "''secret''" "[]" backend_wakes token_body]
  by (simp add: demo_auth_def AuthSession_def BaseSession_def aenter_def backend_wakes_def
        unavailable_def)

text \<open>
  C10. With \<open>attempts = 0\<close> the loop body never runs: \<open>get_token\<close> returns \<open>None\<close> at
  once and the state is the one it started from, so no request was sent, nothing slept,
  nothing was raised and the process was not left. This holds in every state, also
  outside an entered session.
\<close>

theorem get_token_zero_attempts:
  "get_token srv email password 0 kw s = Some (Inr JNone, s)"
  by (subst get_token.simps) simp

lemma demo_auth_live: "self_session demo_auth = Client 0" "Closed 0 \<notin> set (trace demo_auth)"
  "trace demo_auth = [Created 0 ''https://vm.example.com'' []]" "served demo_auth = 0"
  by (simp_all add: demo_auth_def AuthSession_def BaseSession_def aenter_def)

text \<open>
  C2, as the code has it. In an entered session, let the backend answer the first two
  POSTs of \<open>/public/token\<close> with a status of 400 or more. Then \<open>get_token\<close> with
  \<open>attempts = 2\<close> sends exactly two requests and sleeps one second after each of them
  (once between the attempts and once more after the last one), prints the last
  \<open>ClientResponseError\<close> and the exhaustion message, and leaves by \<open>SystemExit(1)\<close>
  instead of returning.
\<close>

theorem get_token_exhausted:
  assumes "self_session s = Client c" and "Closed c \<notin> set (trace s)"
    and "rq = token_request s email password kw"
    and "400 \<le> resp_status (srv (served s) rq)"
    and "400 \<le> resp_status (srv (served s + 1) rq)"
  shows "get_token srv email password 2 kw s =
           Some (Inl (SystemExit 1),
             print (PStr ''attempts to get an auth token have been exhausted.'')
               (print (PExc (ClientResponseError
                    (resp_status (srv (served s + 1) rq))
                    (resp_reason (srv (served s + 1) rq))
                    (resp_headers (srv (served s + 1) rq))))
                 (sleep 1 (sent c rq (sleep 1 (sent c rq s)))))) \<and>
         trace (print (PStr ''attempts to get an auth token have been exhausted.'')
               (print (PExc (ClientResponseError
                    (resp_status (srv (served s + 1) rq))
                    (resp_reason (srv (served s + 1) rq))
                    (resp_headers (srv (served s + 1) rq))))
                 (sleep 1 (sent c rq (sleep 1 (sent c rq s)))))) =
           trace s @
             [Sent c rq, Sleep 1, Sent c rq, Sleep 1,
              Print (PExc (ClientResponseError
                    (resp_status (srv (served s + 1) rq))
                    (resp_reason (srv (served s + 1) rq))
                    (resp_headers (srv (served s + 1) rq)))),
              Print (PStr ''attempts to get an auth token have been exhausted.'')]"
proof -
  let ?s1 = "sleep 1 (sent c rq s)"
  have first: "get_token srv email password 2 kw s = get_token srv email password 1 kw ?s1"
    using get_token_fail_step [of s c srv email password kw 2] assms by simp
  have last: "get_token srv email password 1 kw ?s1 =
      Some (Inl (SystemExit 1),
             print (PStr ''attempts to get an auth token have been exhausted.'')
               (print (PExc (ClientResponseError
                    (resp_status (srv (served s + 1) rq))
                    (resp_reason (srv (served s + 1) rq))
                    (resp_headers (srv (served s + 1) rq))))
                 (sleep 1 (sent c rq ?s1))))"
    using get_token_last_step [of ?s1 c srv email password kw] assms by simp
  show ?thesis using first last by simp
qed

theorem get_token_exhausted_witness:
  "self_session demo_auth = Client 0 \<and> Closed 0 \<notin> set (trace demo_auth) \<and>
   400 \<le> resp_status (backend_down (served demo_auth)
            (token_request demo_auth ''admin@example.com'' ''secret'' [])) \<and>
   get_token backend_down ''admin@example.com'' ''secret'' 2 [] demo_auth =
     Some (Inl (SystemExit 1),
       print (PStr ''attempts to get an auth token have been exhausted.'')
         (print (PExc (ClientResponseError 503 ''Service Unavailable'' []))
           (sleep 1 (sent 0 (token_request demo_auth ''admin@example.com'' ''secret'' [])
             (sleep 1 (sent 0 (token_request demo_auth ''admin@example.com'' ''secret'' [])
               demo_auth))))))"
  using get_token_exhausted
    [of demo_auth 0 "token_request demo_auth ''admin@example.com'' ''secret'' []"
        "''admin@example.com''" "''secret''" "[]" backend_down]
  by (simp add: demo_auth_def AuthSession_def BaseSession_def aenter_def backend_down_def
        unavailable_def)

text \<open>
  C2 as stated asks for exactly one delay. With a backend that always answers 503 the
  call makes two attempts and ends in \<open>SystemExit(1)\<close>, but it has slept twice:
  \<open>asyncio.sleep(1)\<close> is the first statement of the handler, before the count is
  decremented and tested.
\<close>

theorem get_token_exhausted_counterexample:
  "map_option (delays \<circ> trace \<circ> snd)
     (get_token backend_down ''admin@example.com'' ''secret'' 2 [] demo_auth) = Some 2 \<and>
   map_option (attempts_made \<circ> trace \<circ> snd)
     (get_token backend_down ''admin@example.com'' ''secret'' 2 [] demo_auth) = Some 2 \<and>
   map_option fst
     (get_token backend_down ''admin@example.com'' ''secret'' 2 [] demo_auth) =
     Some (Inl (SystemExit 1))"
proof -
  let ?rq = "token_request demo_auth ''admin@example.com'' ''secret'' []"
  let ?s1 = "sleep 1 (sent 0 ?rq demo_auth)"
  have first: "get_token backend_down ''admin@example.com'' ''secret'' 2 [] demo_auth =
               get_token backend_down ''admin@example.com'' ''secret'' 1 [] ?s1"
    using get_token_fail_step [of demo_auth 0 backend_down "''admin@example.com''" "''secret''" "[]" 2]
    by (simp add: demo_auth_live backend_down_def unavailable_def)
  have last: "get_token backend_down ''admin@example.com'' ''secret'' 1 [] ?s1 =
      Some (Inl (SystemExit 1),
             print (PStr ''attempts to get an auth token have been exhausted.'')
               (print (PExc (ClientResponseError 503 ''Service Unavailable'' []))
                 (sleep 1 (sent 0 ?rq ?s1))))"
    using get_token_last_step [of ?s1 0 backend_down "''admin@example.com''" "''secret''" "[]"]
    by (simp add: demo_auth_live backend_down_def unavailable_def)
  show ?thesis
    unfolding first last by (simp add: delays_def attempts_made_def demo_auth_live)
qed

lemma get_live:
  assumes "self_session s = Client c" and "Closed c \<notin> set (trace s)"
  shows "get srv url (Some items) ct kw s =
     finish ct
       (Inr (srv (served s) (request_of GET s (with_query url (encode_items items ''+'()'')) kw)),
        sent c (request_of GET s (with_query url (encode_items items ''+'()'')) kw) s)"
  using assms
  by (simp add: get_def urlencode_def client_request_def Let_def request_of_def with_query_def)

lemma post_live_request:
  assumes "self_session s = Client c" and "Closed c \<notin> set (trace s)"
  shows "post srv url ct kw s =
     finish ct (Inr (srv (served s) (request_of POST s url kw)), sent c (request_of POST s url kw) s)"
  using assms by (simp add: post_live request_of_def)

lemma delete_live:
  assumes "self_session s = Client c" and "Closed c \<notin> set (trace s)"
  shows "delete srv url ct kw s =
     finish ct
       (Inr (srv (served s) (request_of DELETE s url kw)), sent c (request_of DELETE s url kw) s)"
  using assms by (simp add: delete_def client_request_def Let_def request_of_def)

lemma response_json_accepted:
  "content_type_accepted ct r \<Longrightarrow> resp_body r = Text j \<Longrightarrow> response_json r ct = Inr j"
  by (auto simp: response_json_def content_type_accepted_def Let_def split: option.splits)

lemma finish_status:
  "fst (finish ct (Inr r, s)) =
     (if 400 \<le> resp_status r
      then Inl (ClientResponseError (resp_status r) (resp_reason r) (resp_headers r))
      else response_json r ct)"
  by (simp add: finish_error finish_ok)

lemma demo_vm_live: "self_session demo_vm = Client 0" "Closed 0 \<notin> set (trace demo_vm)"
  "trace demo_vm = [Created 0 ''https://vm.example.com'' []]" "served demo_vm = 0"
  "endpoint demo_vm = ''/vm/v3''" "self_ssl demo_vm = Some True"
  by (simp_all add: demo_vm_def VmSession_def BaseSession_def aenter_def endpoint_def default_def)

text \<open>
  C3, as the code has it. In an entered session, for each of \<open>get\<close>, \<open>post\<close> and
  \<open>delete\<close>: when the response has a status of 400 or more, the call fails with the
  \<open>ClientResponseError\<close> built from the status, the reason and the headers of the
  response, whatever the body is; when the status is below 400, the declared content
  type lets the response through and the body is a JSON document, the call returns the
  decoded body.
\<close>

theorem verbs_status_contract:
  assumes "self_session s = Client c" and "Closed c \<notin> set (trace s)"
    and "rg = srv (served s) (request_of GET s (with_query url (encode_items items ''+'()'')) kw)"
    and "rp = srv (served s) (request_of POST s url kw)"
    and "rd = srv (served s) (request_of DELETE s url kw)"
  shows "(400 \<le> resp_status rg \<longrightarrow>
            fst (get srv url (Some items) ct kw s) =
              Inl (ClientResponseError (resp_status rg) (resp_reason rg) (resp_headers rg))) \<and>
         (400 \<le> resp_status rp \<longrightarrow>
            fst (post srv url ct kw s) =
              Inl (ClientResponseError (resp_status rp) (resp_reason rp) (resp_headers rp))) \<and>
         (400 \<le> resp_status rd \<longrightarrow>
            fst (delete srv url ct kw s) =
              Inl (ClientResponseError (resp_status rd) (resp_reason rd) (resp_headers rd))) \<and>
         (resp_status rg < 400 \<and> content_type_accepted ct rg \<and> resp_body rg = Text j \<longrightarrow>
            fst (get srv url (Some items) ct kw s) = Inr j) \<and>
         (resp_status rp < 400 \<and> content_type_accepted ct rp \<and> resp_body rp = Text j \<longrightarrow>
            fst (post srv url ct kw s) = Inr j) \<and>
         (resp_status rd < 400 \<and> content_type_accepted ct rd \<and> resp_body rd = Text j \<longrightarrow>
            fst (delete srv url ct kw s) = Inr j)"
  using assms
  by (simp add: get_live post_live_request delete_live finish_status response_json_accepted)

theorem verbs_status_contract_witness:
  "self_session demo_vm = Client 0 \<and> Closed 0 \<notin> set (trace demo_vm) \<and>
   fst (get (backend_404 (Text error_json)) ''/task/1'' (Some []) default_content_type [] demo_vm) =
     Inl (ClientResponseError 404 ''Not Found'' [(''Content-Type'', ''application/json'')]) \<and>
   fst (post (backend_404 (Text error_json)) ''/host'' default_content_type [] demo_vm) =
     Inl (ClientResponseError 404 ''Not Found'' [(''Content-Type'', ''application/json'')]) \<and>
   fst (delete (backend_404 (Text error_json)) ''/host/1'' default_content_type [] demo_vm) =
     Inl (ClientResponseError 404 ''Not Found'' [(''Content-Type'', ''application/json'')]) \<and>
   fst (get backend_html ''/task/1'' (Some []) None [] demo_vm) = Inr error_json \<and>
   fst (post backend_html ''/task/1'' None [] demo_vm) = Inr error_json \<and>
   fst (delete backend_html ''/task/1'' None [] demo_vm) = Inr error_json"
  using
    verbs_status_contract [of demo_vm 0 _ "backend_404 (Text error_json)" "''/task/1''" "[]" "[]"
       _ _ default_content_type error_json, OF demo_vm_live(1) demo_vm_live(2) refl refl refl]
    verbs_status_contract [of demo_vm 0 _ "backend_404 (Text error_json)" "''/host''" "[]" "[]"
       _ _ default_content_type error_json, OF demo_vm_live(1) demo_vm_live(2) refl refl refl]
    verbs_status_contract [of demo_vm 0 _ "backend_404 (Text error_json)" "''/host/1''" "[]" "[]"
       _ _ default_content_type error_json, OF demo_vm_live(1) demo_vm_live(2) refl refl refl]
    verbs_status_contract [of demo_vm 0 _ backend_html "''/task/1''" "[]" "[]"
       _ _ None error_json, OF demo_vm_live(1) demo_vm_live(2) refl refl refl]
  by (simp add: demo_vm_live backend_404_def backend_html_def content_type_accepted_def)

text \<open>
  C3 as stated fails twice. The error of a 404 answer holds the status, the reason and
  the headers, and it is the same error whether the body was \<open>{"error": "not found"}\<close>
  or empty: \<open>raise_for_status\<close> runs before the body is read and the body is not
  attached. And a 200 answer whose \<open>Content-Type\<close> is \<open>text/html\<close> does not give its
  decoded body under the default declared type: \<open>resp.json\<close> raises
  \<open>ContentTypeError\<close>.
\<close>

theorem verbs_status_contract_counterexample:
  "fst (get (backend_404 (Text error_json)) ''/task/1'' (Some []) default_content_type [] demo_vm) =
     Inl (ClientResponseError 404 ''Not Found'' [(''Content-Type'', ''application/json'')]) \<and>
   fst (get (backend_404 Blank) ''/task/1'' (Some []) default_content_type [] demo_vm) =
     Inl (ClientResponseError 404 ''Not Found'' [(''Content-Type'', ''application/json'')]) \<and>
   Text error_json \<noteq> Blank \<and>
   fst (get backend_html ''/task/1'' (Some []) default_content_type [] demo_vm) =
     Inl (ContentTypeError 200 ''Attempt to decode JSON with unexpected mimetype: text/html''
            [(''Content-Type'', ''text/html'')])"
  by (simp add: get_live [OF demo_vm_live(1) demo_vm_live(2)] finish_status backend_404_def
        backend_html_def response_json_def default_content_type_def header_get_def lower_def
        lower_char_def is_expected_content_type_def json_re_match_def Let_def)

section \<open>The query string of \<open>get\<close>\<close>

lemma hex_digit_no_space: "hex_digit n \<noteq> CHR '' ''"
proof -
  have "n mod 16 < length ''0123456789ABCDEF''" by simp
  then have "''0123456789ABCDEF'' ! (n mod 16) \<in> set ''0123456789ABCDEF''"
    by (rule nth_mem)
  then show ?thesis unfolding hex_digit_def by auto
qed

lemma quoter_no_space: "c \<noteq> CHR '' '' \<Longrightarrow> CHR '' '' \<notin> set (quoter safe c)"
  using hex_digit_no_space [of "of_char c div 16"] hex_digit_no_space [of "of_char c"]
  by (auto simp: quoter_def percent_def)

lemma quoter_space_safe: "c \<noteq> CHR '' '' \<Longrightarrow> quoter (safe @ '' '') c = quoter safe c"
  by (simp add: quoter_def)

lemma quoter_space: "quoter (safe @ '' '') CHR '' '' = '' ''"
  by (simp add: quoter_def)

lemma map_plus_quote:
  "map (\<lambda>c. if c = CHR '' '' then CHR ''+'' else c) (quote str (safe @ '' '')) =
   concat (map (\<lambda>c. if c = CHR '' '' then ''+'' else quoter safe c) str)"
proof (induction str)
  case Nil
  then show ?case by (simp add: quote_def)
next
  case (Cons a str)
  have keep: "map (\<lambda>c. if c = CHR '' '' then CHR ''+'' else c) (quoter safe a) = quoter safe a"
    if "a \<noteq> CHR '' ''"
    using quoter_no_space [OF that, of safe] by (intro map_idI) auto
  show ?case
  proof (cases "a = CHR '' ''")
    case True
    then show ?thesis using Cons by (simp add: quote_def quoter_space)
  next
    case False
    then show ?thesis using Cons keep by (simp add: quote_def quoter_space_safe)
  qed
qed

lemma quote_no_space:
  "CHR '' '' \<notin> set str \<Longrightarrow>
   quote str safe = concat (map (\<lambda>c. if c = CHR '' '' then ''+'' else quoter safe c) str)"
  by (induction str) (auto simp: quote_def)

lemma quote_plus_chars:
  "quote_plus str safe = concat (map (\<lambda>c. if c = CHR '' '' then ''+'' else quoter safe c) str)"
  by (simp add: quote_plus_def map_plus_quote quote_no_space)

lemma quote_plus_single:
  "quote_plus [c] safe = (if c = CHR '' '' then ''+'' else quoter safe c)"
  by (simp add: quote_plus_chars)

lemma quote_plus_charwise:
  "quote_plus str safe = concat (map (\<lambda>c. quote_plus [c] safe) str)"
  by (simp add: quote_plus_chars [of str] quote_plus_single)

lemma join_amp_empty: "join_amp xs = [] \<longleftrightarrow> xs = [] \<or> xs = [[]]"
  by (induction xs rule: join_amp.induct) auto

lemma encode_items_empty: "encode_items items safe = [] \<longleftrightarrow> items = []"
  by (cases items) (auto simp: encode_items_def join_amp_empty split: prod.splits)

lemma get_live_trace:
  assumes "self_session s = Client c" and "Closed c \<notin> set (trace s)"
  shows "trace (snd (get srv url (Some items) ct kw s)) =
         trace s @ [Sent c (request_of GET s (with_query url (encode_items items ''+'()'')) kw)]"
  using assms by (simp add: get_live finish_def split: sum.splits)

text \<open>
  C4, as the code has it. \<open>urlencode\<close> with \<open>safe="+'()"\<close> joins \<open>key=value\<close> pairs with
  \<open>&\<close>, and quotes keys and values character by character: each of \<open>+\<close>, \<open>'\<close>, \<open>(\<close>,
  \<open>)\<close> stays as it is, a space becomes \<open>+\<close> (it is not percent-encoded), \<open>&\<close> becomes
  \<open>%26\<close> and \<open>=\<close> becomes \<open>%3D\<close>, as every character does that is neither always safe
  nor one of these. The encoded string is empty exactly for the empty
  mapping, and \<open>get\<close>, in an entered session, sends the path \<open>endpoint + url\<close> for the
  empty mapping and \<open>endpoint + url + ? + query\<close> otherwise.
\<close>

theorem get_query_encoding:
  assumes "self_session s = Client c" and "Closed c \<notin> set (trace s)"
  shows "urlencode (Some items) ''+'()'' =
           Inr (join_amp (map (\<lambda>(k, v). quote_plus k ''+'()'' @ ''='' @ quote_plus v ''+'()'')
                  items)) \<and>
         quote_plus str ''+'()'' = concat (map (\<lambda>x. quote_plus [x] ''+'()'') str) \<and>
         (ch \<in> set ''+'()'' \<longrightarrow> quote_plus [ch] ''+'()'' = [ch]) \<and>
         quote_plus '' '' ''+'()'' = ''+'' \<and>
         quote_plus ''&'' ''+'()'' = ''%26'' \<and>
         quote_plus ''='' ''+'()'' = ''%3D'' \<and>
         (ch \<notin> set ''+'() '' \<and> \<not> always_safe ch \<longrightarrow> quote_plus [ch] ''+'()'' = percent ch) \<and>
         (encode_items items ''+'()'' = [] \<longleftrightarrow> items = []) \<and>
         trace (snd (get srv url (Some items) ct kw s)) =
           trace s @
           [Sent c (request_of GET s
                      (if items = [] then url else url @ ''?'' @ encode_items items ''+'()'') kw)]"
proof -
  have enc: "urlencode (Some items) ''+'()'' =
           Inr (join_amp (map (\<lambda>(k, v). quote_plus k ''+'()'' @ ''='' @ quote_plus v ''+'()'')
                  items))"
    by (simp add: urlencode_def encode_items_def)
  have kept: "ch \<in> set ''+'()'' \<longrightarrow> quote_plus [ch] ''+'()'' = [ch]"
    by (auto simp: quote_plus_single quoter_def)
  have escaped: "ch \<notin> set ''+'() '' \<and> \<not> always_safe ch \<longrightarrow> quote_plus [ch] ''+'()'' = percent ch"
    by (auto simp: quote_plus_single quoter_def)
  have others: "quote_plus '' '' ''+'()'' = ''+''" "quote_plus ''&'' ''+'()'' = ''%26''"
    "quote_plus ''='' ''+'()'' = ''%3D''"
    by (simp_all add: quote_plus_single quoter_def always_safe_def percent_def hex_digit_def)
  have path: "with_query url (encode_items items ''+'()'') =
      (if items = [] then url else url @ ''?'' @ encode_items items ''+'()'')"
    by (simp add: with_query_def encode_items_empty)
  show ?thesis
    using enc kept escaped others quote_plus_charwise [of str "''+'()''"]
      encode_items_empty [of items "''+'()''"] get_live_trace [OF assms, of srv url items ct kw]
    by (simp only: path simp_thms)
qed

theorem get_query_encoding_witness:
  "self_session demo_vm = Client 0 \<and> Closed 0 \<notin> set (trace demo_vm) \<and>
   CHR ''('' \<in> set ''+'()'' \<and> quote_plus ''('' ''+'()'' = ''('' \<and>
   urlencode (Some [(''where'', ''name+EQ+'a b'&(x=1)'')]) ''+'()'' =
     Inr ''where=name+EQ+'a+b'%26(x%3D1)'' \<and>
   trace (snd (get backend_html ''/host'' (Some [(''where'', ''name+EQ+'a b'&(x=1)'')])
                 None [] demo_vm)) =
     trace demo_vm @
     [Sent 0 (request_of GET demo_vm ''/host?where=name+EQ+'a+b'%26(x%3D1)'' [])] \<and>
   trace (snd (get backend_html ''/host'' (Some []) None [] demo_vm)) =
     trace demo_vm @ [Sent 0 (request_of GET demo_vm ''/host'' [])]"
  using
    get_query_encoding [OF demo_vm_live(1) demo_vm_live(2),
      of "[(''where'', ''name+EQ+'a b'&(x=1)'')]" "''''" "CHR ''(''" backend_html "''/host''" None "[]"]
    get_query_encoding [OF demo_vm_live(1) demo_vm_live(2),
      of "[]" "''''" "CHR ''(''" backend_html "''/host''" None "[]"]
  by (simp add: demo_vm_live encode_items_def quote_plus_def quote_def quoter_def
        always_safe_def percent_def hex_digit_def)

text \<open>
  C4 as stated has the space percent-encoded. \<open>urlencode\<close> quotes with \<open>quote_plus\<close>,
  which writes a space as \<open>+\<close>: the value \<open>a b\<close> is encoded as \<open>a+b\<close>, with no \<open>%\<close>
  in the result, and so is the value \<open>a+b\<close>.
\<close>

theorem get_query_encoding_counterexample:
  "urlencode (Some [(''q'', ''a b'')]) ''+'()'' = Inr ''q=a+b'' \<and>
   urlencode (Some [(''q'', ''a+b'')]) ''+'()'' = Inr ''q=a+b'' \<and>
   CHR ''%'' \<notin> set ''q=a+b''"
  by (simp add: urlencode_def encode_items_def quote_plus_def quote_def quoter_def
        always_safe_def percent_def hex_digit_def)

section \<open>Every path carries the endpoint\<close>

lemma sent_urls_append [simp]: "sent_urls (xs @ ys) = sent_urls xs @ sent_urls ys"
  by (induction xs rule: sent_urls.induct) simp_all

lemma finish_state [simp]: "snd (finish ct (r, s)) = s"
  by (simp add: finish_def split: sum.splits)

lemma post_live_state:
  assumes "self_session s = Client c" and "Closed c \<notin> set (trace s)"
  shows "snd (post srv url ct kw s) = sent c (request_of POST s url kw) s"
  using assms by (simp add: post_live_request)

lemma get_live_state:
  assumes "self_session s = Client c" and "Closed c \<notin> set (trace s)"
  shows "snd (get srv url (Some items) ct kw s) =
         sent c (request_of GET s (with_query url (encode_items items ''+'()'')) kw) s"
  using assms by (simp add: get_live)

lemma delete_live_state:
  assumes "self_session s = Client c" and "Closed c \<notin> set (trace s)"
  shows "snd (delete srv url ct kw s) = sent c (request_of DELETE s url kw) s"
  using assms by (simp add: delete_live)

lemma request_of_url [simp]: "req_url (request_of m s path kw) = endpoint s @ path"
  by (simp add: request_of_def)

text \<open>Outside an entered session a verb sends nothing and changes nothing.\<close>

lemma post_dead:
  "\<forall>c. self_session s = Client c \<longrightarrow> Closed c \<in> set (trace s) \<Longrightarrow>
   snd (post srv url ct kw s) = s"
  by (cases "self_session s") (auto simp: post_def client_request_def finish_def Let_def)

lemma post_state_cases:
  "snd (post srv url ct kw s) = s \<or>
   (\<exists>c. snd (post srv url ct kw s) = sent c (request_of POST s url kw) s)"
proof (cases "\<exists>c. self_session s = Client c \<and> Closed c \<notin> set (trace s)")
  case True
  then show ?thesis using post_live_state by blast
next
  case False
  then show ?thesis using post_dead [of s] by blast
qed

text \<open>
  What the loop of \<open>get_token\<close> keeps: a relation between the states before and
  after that is reflexive and transitive and holds across a POST of \<open>/public/token\<close>,
  a sleep and a print.
\<close>

lemma get_token_keeps:
  assumes R_refl: "\<And>s. R s s"
    and R_trans: "\<And>a b c. R a b \<Longrightarrow> R b c \<Longrightarrow> R a c"
    and R_post: "\<And>ct kw s. R s (snd (post srv ''/public/token'' ct kw s))"
    and R_sleep: "\<And>n s. R s (sleep n s)"
    and R_print: "\<And>x s. R s (print x s)"
    and returns: "get_token srv email password attempts kw s = Some y"
  shows "R s (snd y)"
proof -
  have "srv = srv \<longrightarrow> R s (snd y)"
  proof (rule get_token.raw_induct
      [where P = "\<lambda>srv' email password attempts kw s y. srv' = srv \<longrightarrow> R s (snd y)", OF _ returns])
    fix f :: "backend \<Rightarrow> string \<Rightarrow> string \<Rightarrow> int \<Rightarrow> kwargs \<Rightarrow> state
                \<Rightarrow> ((exc + json) \<times> state) option"
      and srv' :: backend and email password :: string and attempts :: int
      and kw :: kwargs and s :: state and y :: "(exc + json) \<times> state"
    assume IH: "\<And>a b c d e g y. f a b c d e g = Some y \<Longrightarrow> a = srv \<longrightarrow> R g (snd y)"
    assume body: "(if attempts \<noteq> 0
      then case post srv' ''/public/token'' None (token_kwargs email password kw) s of
           (Inl error, s1) \<Rightarrow>
             if is_ClientResponseError error
             then let s2 = sleep 1 s1; attempts1 = attempts - 1
                  in if attempts1 = 0
                     then Some (Inl (SystemExit 1),
                            print (PStr ''attempts to get an auth token have been exhausted.'')
                             (print (PExc error) s2))
                     else f srv' email password attempts1 kw s2
             else Some (Inl error, s1)
           | (Inr response, s1) \<Rightarrow> Some (Inr response, s1)
      else Some (Inr JNone, s)) = Some y"
    show "srv' = srv \<longrightarrow> R s (snd y)"
    proof
      assume eq: "srv' = srv"
      obtain r s1 where p: "post srv ''/public/token'' None (token_kwargs email password kw) s = (r, s1)"
        by (cases "post srv ''/public/token'' None (token_kwargs email password kw) s")
      have step: "R s s1" using R_post [where ct = None and kw = "token_kwargs email password kw" and s = s] p by simp
      show "R s (snd y)"
      proof (cases "attempts = 0")
        case True
        then show ?thesis using body R_refl by auto
      next
        case False
        show ?thesis
        proof (cases r)
          case (Inr v)
          then show ?thesis using body False p eq step by auto
        next
          case (Inl e)
          show ?thesis
          proof (cases "is_ClientResponseError e")
            case False
            then show ?thesis using body \<open>attempts \<noteq> 0\<close> p eq step Inl by auto
          next
            case True
            have s2: "R s (sleep 1 s1)" using step R_sleep R_trans by blast
            show ?thesis
            proof (cases "attempts - 1 = 0")
              case True
              have "R s (print (PStr ''attempts to get an auth token have been exhausted.'')
                             (print (PExc e) (sleep 1 s1)))"
                using s2 R_print R_trans by blast
              then show ?thesis
                using body \<open>attempts \<noteq> 0\<close> p eq Inl \<open>is_ClientResponseError e\<close> True
                by (auto simp: Let_def)
            next
              case False
              then have "f srv email password (attempts - 1) kw (sleep 1 s1) = Some y"
                using body \<open>attempts \<noteq> 0\<close> p eq Inl \<open>is_ClientResponseError e\<close>
                by (auto simp: Let_def)
              then have "R (sleep 1 s1) (snd y)" using IH by blast
              then show ?thesis using s2 R_trans by blast
            qed
          qed
        qed
      qed
    qed
  qed
  then show ?thesis by simp
qed

lemma get_token_urls:
  assumes "get_token srv email password attempts kw s = Some y"
  shows "endpoint (snd y) = endpoint s \<and>
         (\<exists>n. sent_urls (trace (snd y)) =
                sent_urls (trace s) @ replicate n (endpoint s @ ''/public/token''))"
proof (rule get_token_keeps
    [where R = "\<lambda>a b. endpoint b = endpoint a \<and>
                 (\<exists>n. sent_urls (trace b) =
                        sent_urls (trace a) @ replicate n (endpoint a @ ''/public/token''))",
     OF _ _ _ _ _ assms])
  fix a :: state
  show "endpoint a = endpoint a \<and>
        (\<exists>n. sent_urls (trace a) =
               sent_urls (trace a) @ replicate n (endpoint a @ ''/public/token''))"
    by (simp add: exI [of _ 0])
next
  fix a b c :: state
  assume ab: "endpoint b = endpoint a \<and>
        (\<exists>n. sent_urls (trace b) =
               sent_urls (trace a) @ replicate n (endpoint a @ ''/public/token''))"
    and bc: "endpoint c = endpoint b \<and>
        (\<exists>n. sent_urls (trace c) =
               sent_urls (trace b) @ replicate n (endpoint b @ ''/public/token''))"
  from ab obtain n where n: "sent_urls (trace b) =
      sent_urls (trace a) @ replicate n (endpoint a @ ''/public/token'')" by blast
  from bc obtain m where m: "sent_urls (trace c) =
      sent_urls (trace b) @ replicate m (endpoint b @ ''/public/token'')" by blast
  have "sent_urls (trace c) =
      sent_urls (trace a) @ replicate (n + m) (endpoint a @ ''/public/token'')"
    using n m ab by (simp add: replicate_add)
  then show "endpoint c = endpoint a \<and>
        (\<exists>n. sent_urls (trace c) =
               sent_urls (trace a) @ replicate n (endpoint a @ ''/public/token''))"
    using ab bc by auto
next
  fix ct kw' and a :: state
  have "snd (post srv ''/public/token'' ct kw' a) = a \<or>
        (\<exists>c. snd (post srv ''/public/token'' ct kw' a) =
              sent c (request_of POST a ''/public/token'' kw') a)"
    by (rule post_state_cases)
  then show "endpoint (snd (post srv ''/public/token'' ct kw' a)) = endpoint a \<and>
        (\<exists>n. sent_urls (trace (snd (post srv ''/public/token'' ct kw' a))) =
               sent_urls (trace a) @ replicate n (endpoint a @ ''/public/token''))"
  proof
    assume "snd (post srv ''/public/token'' ct kw' a) = a"
    then show ?thesis by (simp add: exI [of _ 0])
  next
    assume "\<exists>c. snd (post srv ''/public/token'' ct kw' a) =
              sent c (request_of POST a ''/public/token'' kw') a"
    then show ?thesis by (auto intro: exI [of _ 1])
  qed
next
  fix n and a :: state
  show "endpoint (sleep n a) = endpoint a \<and>
        (\<exists>k. sent_urls (trace (sleep n a)) =
               sent_urls (trace a) @ replicate k (endpoint a @ ''/public/token''))"
    by (simp add: exI [of _ 0])
next
  fix x and a :: state
  show "endpoint (print x a) = endpoint a \<and>
        (\<exists>k. sent_urls (trace (print x a)) =
               sent_urls (trace a) @ replicate k (endpoint a @ ''/public/token''))"
    by (simp add: exI [of _ 0])
qed

lemma get_task_by_consul_id_state:
  "snd (get_task_by_consul_id srv consul_id kw s) =
   snd (get srv ''/task'' (Some [(''where'', ''consul_id+EQ+'' @ str_int consul_id)])
          default_content_type kw s)"
  by (simp add: get_task_by_consul_id_def split: prod.splits sum.splits)

lemma double_slash_Cons:
  "double_slash (a # xs) \<longleftrightarrow>
     (xs \<noteq> [] \<and> a = CHR ''/'' \<and> hd xs = CHR ''/'') \<or> double_slash xs"
  by (cases xs) auto

lemma double_slash_append:
  "double_slash (xs @ ys) \<longleftrightarrow>
     double_slash xs \<or> double_slash ys \<or>
     (xs \<noteq> [] \<and> ys \<noteq> [] \<and> last xs = CHR ''/'' \<and> hd ys = CHR ''/'')"
proof (induction xs)
  case Nil
  then show ?case by simp
next
  case (Cons a xs)
  show ?case
  proof (cases "xs = []")
    case True
    then show ?thesis by (auto simp: double_slash_Cons)
  next
    case False
    then show ?thesis using Cons by (auto simp: double_slash_Cons [of a])
  qed
qed

lemma double_slash_segment: "CHR ''/'' \<notin> set x \<Longrightarrow> \<not> double_slash x"
  by (induction x rule: double_slash.induct) auto

lemma endpoint_plain:
  assumes "plain_segment (self_definition s)" and "plain_segment (self_version s)"
  shows "\<not> double_slash (endpoint s)" and "last (endpoint s) \<noteq> CHR ''/''"
proof -
  let ?d = "self_definition s" and ?v = "self_version s"
  have d: "?d \<noteq> []" "CHR ''/'' \<notin> set ?d" and v: "?v \<noteq> []" "CHR ''/'' \<notin> set ?v"
    using assms by (simp_all add: plain_segment_def)
  have hd_d: "hd ?d \<noteq> CHR ''/''" and hd_v: "hd ?v \<noteq> CHR ''/''"
    and last_d: "last ?d \<noteq> CHR ''/''" and last_v: "last ?v \<noteq> CHR ''/''"
    using d v by (metis hd_in_set, metis hd_in_set, metis last_in_set, metis last_in_set)
  have "\<not> double_slash (CHR ''/'' # ?v)"
    using v hd_v double_slash_segment [of ?v] by (simp add: double_slash_Cons)
  then have "\<not> double_slash (?d @ CHR ''/'' # ?v)"
    using d last_d double_slash_segment [of ?d] by (simp add: double_slash_append)
  then have "\<not> double_slash (CHR ''/'' # ?d @ CHR ''/'' # ?v)"
    using d hd_d by (simp add: double_slash_Cons)
  then show "\<not> double_slash (endpoint s)" by (simp add: endpoint_def)
  show "last (endpoint s) \<noteq> CHR ''/''" using v last_v by (simp add: endpoint_def)
qed

lemma endpoint_no_double_slash:
  assumes "plain_segment (self_definition s)" and "plain_segment (self_version s)"
  shows "double_slash (endpoint s @ p) \<longleftrightarrow> double_slash p"
  using endpoint_plain [OF assms] by (auto simp: double_slash_append)

text \<open>
  C5, as the code has it. In an entered session with endpoint \<open>e\<close>, the path that
  \<open>get\<close>, \<open>post\<close> and \<open>delete\<close> send for a relative path \<open>p\<close> is \<open>e + p\<close> (for
  \<open>get\<close>, followed by the query suffix when the mapping is not empty), and every
  domain method sends \<open>e\<close> followed by its own relative path; whatever \<open>get_token\<close>
  has sent when it returns is \<open>e + /public/token\<close>, some number of times. For a
  session whose definition and version are plain segments (not empty, no slash), as the
  defaults of the four sessions are, \<open>e + p\<close> has a double slash only if \<open>p\<close> has
  one.
\<close>

theorem every_path_is_endpoint_plus_relative:
  assumes "self_session s = Client c" and "Closed c \<notin> set (trace s)"
  shows "sent_urls (trace (snd (get srv p (Some items) ct kw s))) =
           sent_urls (trace s) @
           [endpoint s @ p @ (if items = [] then [] else ''?'' @ encode_items items ''+'()'')] \<and>
         sent_urls (trace (snd (post srv p ct kw s))) = sent_urls (trace s) @ [endpoint s @ p] \<and>
         sent_urls (trace (snd (delete srv p ct kw s))) = sent_urls (trace s) @ [endpoint s @ p] \<and>
         sent_urls (trace (snd (get_key srv email_or_id kw s))) =
           sent_urls (trace s) @ [endpoint s @ ''/user/'' @ format email_or_id @ ''/key''] \<and>
         sent_urls (trace (snd (whoami srv kw s))) =
           sent_urls (trace s) @ [endpoint s @ ''/whoami''] \<and>
         sent_urls (trace (snd (get_task srv task_id kw s))) =
           sent_urls (trace s) @ [endpoint s @ ''/task/'' @ str_int task_id] \<and>
         sent_urls (trace (snd (get_task_by_consul_id srv consul_id kw s))) =
           sent_urls (trace s) @
           [endpoint s @ ''/task'' @ ''?'' @
              encode_items [(''where'', ''consul_id+EQ+'' @ str_int consul_id)] ''+'()''] \<and>
         sent_urls (trace (snd (host_create srv host_params kw s))) =
           sent_urls (trace s) @ [endpoint s @ ''/host''] \<and>
         sent_urls (trace (snd (host_delete srv host_id kw s))) =
           sent_urls (trace s) @ [endpoint s @ ''/host/'' @ str_int host_id] \<and>
         sent_urls (trace (snd (host_edit srv host_id host_params kw s))) =
           sent_urls (trace s) @ [endpoint s @ ''/host/'' @ str_int host_id] \<and>
         (get_token srv email password attempts kw s = Some y \<longrightarrow>
            (\<exists>n. sent_urls (trace (snd y)) =
                   sent_urls (trace s) @ replicate n (endpoint s @ ''/public/token''))) \<and>
         (plain_segment (self_definition s) \<and> plain_segment (self_version s) \<longrightarrow>
            (double_slash (endpoint s @ p) \<longleftrightarrow> double_slash p))"
proof -
  note live = get_live_state [OF assms] post_live_state [OF assms] delete_live_state [OF assms]
  have verbs: "sent_urls (trace (snd (get srv p (Some items) ct kw s))) =
           sent_urls (trace s) @
           [endpoint s @ p @ (if items = [] then [] else ''?'' @ encode_items items ''+'()'')]"
    "sent_urls (trace (snd (post srv p ct kw s))) = sent_urls (trace s) @ [endpoint s @ p]"
    "sent_urls (trace (snd (delete srv p ct kw s))) = sent_urls (trace s) @ [endpoint s @ p]"
    by (simp_all add: live with_query_def encode_items_empty)
  have auth: "sent_urls (trace (snd (get_key srv email_or_id kw s))) =
           sent_urls (trace s) @ [endpoint s @ ''/user/'' @ format email_or_id @ ''/key'']"
    "sent_urls (trace (snd (whoami srv kw s))) = sent_urls (trace s) @ [endpoint s @ ''/whoami'']"
    by (simp_all add: get_key_def whoami_def default_params_def live with_query_def
          encode_items_def)
  have vm: "sent_urls (trace (snd (get_task srv task_id kw s))) =
           sent_urls (trace s) @ [endpoint s @ ''/task/'' @ str_int task_id]"
    "sent_urls (trace (snd (get_task_by_consul_id srv consul_id kw s))) =
           sent_urls (trace s) @
           [endpoint s @ ''/task'' @ ''?'' @
              encode_items [(''where'', ''consul_id+EQ+'' @ str_int consul_id)] ''+'()'']"
    "sent_urls (trace (snd (host_create srv host_params kw s))) =
           sent_urls (trace s) @ [endpoint s @ ''/host'']"
    "sent_urls (trace (snd (host_delete srv host_id kw s))) =
           sent_urls (trace s) @ [endpoint s @ ''/host/'' @ str_int host_id]"
    "sent_urls (trace (snd (host_edit srv host_id host_params kw s))) =
           sent_urls (trace s) @ [endpoint s @ ''/host/'' @ str_int host_id]"
    by (simp_all add: get_task_def get_task_by_consul_id_state host_create_def host_delete_def
          host_edit_def default_params_def live with_query_def encode_items_empty
          encode_items_def [of "[]"])
  have token: "get_token srv email password attempts kw s = Some y \<longrightarrow>
            (\<exists>n. sent_urls (trace (snd y)) =
                   sent_urls (trace s) @ replicate n (endpoint s @ ''/public/token''))"
    using get_token_urls by blast
  have slashes: "plain_segment (self_definition s) \<and> plain_segment (self_version s) \<longrightarrow>
            (double_slash (endpoint s @ p) \<longleftrightarrow> double_slash p)"
    using endpoint_no_double_slash by blast
  show ?thesis
    using verbs auth vm token slashes by (simp only: simp_thms)
qed

lemma demo_vm_segments:
  "plain_segment (self_definition demo_vm)" "plain_segment (self_version demo_vm)"
  by (simp_all add: demo_vm_def VmSession_def BaseSession_def aenter_def default_def
        plain_segment_def)

theorem every_path_is_endpoint_plus_relative_witness:
  "self_session demo_vm = Client 0 \<and> Closed 0 \<notin> set (trace demo_vm) \<and>
   plain_segment (self_definition demo_vm) \<and> plain_segment (self_version demo_vm) \<and>
   get_token backend_html ''admin@example.com'' ''secret'' 1 [] demo_vm =
     Some (Inr error_json,
           sent 0 (token_request demo_vm ''admin@example.com'' ''secret'' []) demo_vm) \<and>
   sent_urls (trace (snd (get backend_html ''/host'' (Some [(''a'', ''b'')]) None [] demo_vm))) =
     [''/vm/v3/host?a=b''] \<and>
   sent_urls (trace (snd (host_delete backend_html 7 [] demo_vm))) = [''/vm/v3/host/7''] \<and>
   (\<exists>n. sent_urls (trace (sent 0 (token_request demo_vm ''admin@example.com'' ''secret'' [])
                             demo_vm)) =
          sent_urls (trace demo_vm) @ replicate n (endpoint demo_vm @ ''/public/token'')) \<and>
   (double_slash (endpoint demo_vm @ ''/host//7'') \<longleftrightarrow> double_slash ''/host//7'') \<and>
   double_slash ''/host//7''"
proof -
  have tok: "get_token backend_html ''admin@example.com'' ''secret'' 1 [] demo_vm =
     Some (Inr error_json,
           sent 0 (token_request demo_vm ''admin@example.com'' ''secret'' []) demo_vm)"
    using get_token_ok_step [OF demo_vm_live(1) demo_vm_live(2),
        of backend_html "''admin@example.com''" "''secret''" "[]" error_json 1]
    by (simp add: backend_html_def)
  show ?thesis
    using every_path_is_endpoint_plus_relative [OF demo_vm_live(1) demo_vm_live(2),
        of backend_html "''/host''" "[(''a'', ''b'')]" None "[]" "IntVal 1" 1 1 JNone 7
           "''admin@example.com''" "''secret''" 1
           "(Inr error_json,
             sent 0 (token_request demo_vm ''admin@example.com'' ''secret'' []) demo_vm)"]
      every_path_is_endpoint_plus_relative [OF demo_vm_live(1) demo_vm_live(2),
        of backend_html "''/host//7''" "[]" None "[]" "IntVal 1" 1 1 JNone 7
           "''admin@example.com''" "''secret''" 1
           "(Inr error_json,
             sent 0 (token_request demo_vm ''admin@example.com'' ''secret'' []) demo_vm)"]
      tok
    by (simp add: demo_vm_live demo_vm_segments encode_items_def quote_plus_def quote_def
          quoter_def always_safe_def str_int_def str_nat.simps)
qed

text \<open>
  C5 as stated speaks of every session. The segments are not checked: with the empty
  string for the definition and for the version the endpoint is \<open>//\<close>, and \<open>post\<close> of
  \<open>/host\<close> sends \<open>///host\<close>, which is \<open>e + p\<close> and has a double slash although \<open>/host\<close>
  has none.
\<close>

theorem every_path_is_endpoint_plus_relative_counterexample:
  "endpoint demo_blank = ''//'' \<and>
   sent_urls (trace (snd (post backend_html ''/host'' None [] demo_blank))) = [''///host''] \<and>
   double_slash ''///host'' \<and>
   \<not> double_slash ''/host''"
proof -
  have live: "self_session demo_blank = Client 0" "Closed 0 \<notin> set (trace demo_blank)"
    and before: "sent_urls (trace demo_blank) = []"
    and ep: "endpoint demo_blank = ''//''"
    by (simp_all add: demo_blank_def BaseSession_def aenter_def endpoint_def)
  have "sent_urls (trace (snd (post backend_html ''/host'' None [] demo_blank))) =
        [''///host'']"
    by (simp add: post_live_state [OF live] before ep)
  then show ?thesis using ep by simp
qed

section \<open>Looking a task up by its consul id\<close>

lemma str_nat_digits: "set (str_nat n) \<subseteq> set ''0123456789''"
proof (induction n rule: str_nat.induct)
  case (1 n)
  have digit: "''0123456789'' ! k \<in> set ''0123456789''" if "k < 10" for k
    using that by (intro nth_mem) simp
  show ?case
  proof (cases "n < 10")
    case True
    then show ?thesis using digit [of n] by (subst str_nat.simps) simp
  next
    case False
    then show ?thesis
      using "1.IH" digit [of "n mod 10"] by (subst str_nat.simps) simp
  qed
qed

lemma str_int_chars: "set (str_int i) \<subseteq> set ''-0123456789''"
proof (cases "i < 0")
  case True
  then show ?thesis using str_nat_digits [of "nat (- i)"] by (simp add: str_int_def subset_iff)
next
  case False
  then show ?thesis using str_nat_digits [of "nat i"] by (simp add: str_int_def subset_iff)
qed

lemma quote_plus_unchanged:
  assumes "\<forall>c \<in> set str. c \<noteq> CHR '' '' \<and> (of_char c :: nat) < 128 \<and> (always_safe c \<or> c \<in> set safe)"
  shows "quote_plus str safe = str"
  using assms by (induction str) (simp_all add: quote_plus_chars quoter_def)


lemma quote_plus_str_int: "quote_plus (str_int i) safe = str_int i"
proof (rule quote_plus_unchanged, rule ballI)
  fix c assume "c \<in> set (str_int i)"
  then have "c \<in> set ''-0123456789''" using str_int_chars by blast
  then show "c \<noteq> CHR '' '' \<and> (of_char c :: nat) < 128 \<and> (always_safe c \<or> c \<in> set safe)"
    by (auto simp: always_safe_def)
qed

lemma quote_plus_append:
  "quote_plus (xs @ ys) safe = quote_plus xs safe @ quote_plus ys safe"
  by (simp add: quote_plus_chars)

lemma consul_query:
  "encode_items [(''where'', ''consul_id+EQ+'' @ str_int consul_id)] ''+'()'' =
   ''where=consul_id+EQ+'' @ str_int consul_id"
proof -
  have key: "quote_plus ''where'' ''+'()'' = ''where''"
    by (simp add: quote_plus_chars quoter_def always_safe_def)
  have fixed: "quote_plus ''consul_id+EQ+'' ''+'()'' = ''consul_id+EQ+''"
    by (simp add: quote_plus_chars quoter_def always_safe_def)
  have val: "quote_plus (''consul_id+EQ+'' @ str_int consul_id) ''+'()'' =
             ''consul_id+EQ+'' @ str_int consul_id"
    unfolding quote_plus_append quote_plus_str_int fixed by (rule refl)
  have pair: "encode_items [(k, v)] safe = quote_plus k safe @ ''='' @ quote_plus v safe"
    for k v safe
    by (simp add: encode_items_def)
  show ?thesis unfolding pair key val by simp
qed


lemma get_task_by_consul_id_live:
  assumes "self_session s = Client c" and "Closed c \<notin> set (trace s)"
  shows "get_task_by_consul_id srv consul_id kw s =
     (case finish default_content_type
             (Inr (srv (served s)
                     (request_of GET s (''/task?where=consul_id+EQ+'' @ str_int consul_id) kw)),
              sent c (request_of GET s (''/task?where=consul_id+EQ+'' @ str_int consul_id) kw) s) of
        (Inl e, s1) \<Rightarrow> (Inl e, s1)
      | (Inr response, s1) \<Rightarrow>
          (case subscript_key response ''list'' of
             Inl e \<Rightarrow> (Inl e, s1)
           | Inr l \<Rightarrow> (subscript_zero l, s1)))"
  unfolding get_task_by_consul_id_def get_live [OF assms] consul_query
  by (simp add: with_query_def)


text \<open>
  C6. In an entered session \<open>get_task_by_consul_id\<close> sends one request, GET
  \<open>endpoint + /task?where=consul_id+EQ+\<close> followed by the decimal consul id. When the
  backend answers with a status below 400, a JSON content type and a dict whose \<open>list\<close>
  entry is a non-empty list, the result is the first element of that list; when the
  \<open>list\<close> entry is the empty list, the call fails with \<open>IndexError\<close>, which nothing in
  the method catches.
\<close>

theorem get_task_by_consul_id_first_element:
  assumes "self_session s = Client c" and "Closed c \<notin> set (trace s)"
    and "rq = request_of GET s (''/task?where=consul_id+EQ+'' @ str_int consul_id) kw"
    and "resp_status (srv (served s) rq) < 400"
    and "content_type_accepted default_content_type (srv (served s) rq)"
    and "resp_body (srv (served s) rq) = Text (JDict kvs)"
  shows "trace (snd (get_task_by_consul_id srv consul_id kw s)) = trace s @ [Sent c rq] \<and>
         (map_of kvs ''list'' = Some (JList (x # xs)) \<longrightarrow>
            fst (get_task_by_consul_id srv consul_id kw s) = Inr x) \<and>
         (map_of kvs ''list'' = Some (JList []) \<longrightarrow>
            fst (get_task_by_consul_id srv consul_id kw s) = Inl IndexError)"
proof -
  let ?rq = "request_of GET s (''/task?where=consul_id+EQ+'' @ str_int consul_id) kw"
  have rq: "rq = ?rq" by fact
  have status: "resp_status (srv (served s) ?rq) < 400"
    and accepted: "content_type_accepted default_content_type (srv (served s) ?rq)"
    and body: "resp_body (srv (served s) ?rq) = Text (JDict kvs)"
    using assms(4,5,6) unfolding rq by blast+
  have answer: "finish default_content_type (Inr (srv (served s) ?rq), sent c ?rq s) =
                (Inr (JDict kvs), sent c ?rq s)"
    using status accepted body by (simp only: finish_ok response_json_accepted)
  have call: "get_task_by_consul_id srv consul_id kw s =
      (case subscript_key (JDict kvs) ''list'' of
         Inl e \<Rightarrow> (Inl e, sent c ?rq s)
       | Inr l \<Rightarrow> (subscript_zero l, sent c ?rq s))"
    unfolding get_task_by_consul_id_live [OF assms(1,2)] answer
    by (simp only: prod.case sum.case)
  show ?thesis unfolding call rq by (auto split: option.splits)
qed

theorem get_task_by_consul_id_first_element_witness:
  "self_session demo_vm = Client 0 \<and> Closed 0 \<notin> set (trace demo_vm) \<and>
   content_type_accepted default_content_type
     (backend_json (JDict [(''list'', JList [])]) 0
        (request_of GET demo_vm ''/task?where=consul_id+EQ+7'' [])) \<and>
   get_task_by_consul_id (backend_json (JDict [(''list'', JList [JDict [(''id'', JInt 42)]])])) 7 []
       demo_vm =
     (Inr (JDict [(''id'', JInt 42)]),
      sent 0 (request_of GET demo_vm ''/task?where=consul_id+EQ+7'' []) demo_vm) \<and>
   get_task_by_consul_id (backend_json (JDict [(''list'', JList [])])) 7 [] demo_vm =
     (Inl IndexError, sent 0 (request_of GET demo_vm ''/task?where=consul_id+EQ+7'' []) demo_vm)"
proof -
  have seven: "str_int 7 = ''7''" by (simp add: str_int_def str_nat.simps)
  have accepted: "content_type_accepted default_content_type (backend_json b 0 rq)" for b rq
    by (simp add: content_type_accepted_def default_content_type_def backend_json_def
          header_get_def lower_def lower_char_def is_expected_content_type_def json_re_match_def)
  have st: "snd (get_task_by_consul_id srv 7 [] demo_vm) =
            sent 0 (request_of GET demo_vm ''/task?where=consul_id+EQ+7'' []) demo_vm" for srv
    unfolding get_task_by_consul_id_state get_live_state [OF demo_vm_live(1) demo_vm_live(2)]
      consul_query
    by (simp add: seven with_query_def)
  show ?thesis
    using
      get_task_by_consul_id_first_element [OF demo_vm_live(1) demo_vm_live(2) refl,
        of "backend_json (JDict [(''list'', JList [JDict [(''id'', JInt 42)]])])" 7 "[]"
           "[(''list'', JList [JDict [(''id'', JInt 42)]])]" "JDict [(''id'', JInt 42)]" "[]"]
      get_task_by_consul_id_first_element [OF demo_vm_live(1) demo_vm_live(2) refl,
        of "backend_json (JDict [(''list'', JList [])])" 7 "[]"
           "[(''list'', JList [])]" "JDict [(''id'', JInt 42)]" "[]"]
      accepted st
    by (simp add: demo_vm_live seven backend_json_def prod_eq_iff)
qed

section \<open>What each domain method sends\<close>

lemma trace_sent_request:
  "trace (sent c rq s) = trace s @ [Sent c rq]"
  by simp

text \<open>
  C7. In an entered session each domain method sends one request with its own HTTP
  method, path and body: \<open>get_key\<close> POSTs \<open>/user/{email_or_id}/key\<close>; \<open>whoami\<close> GETs
  \<open>/whoami\<close>; \<open>get_task\<close> GETs \<open>/task/{task_id}\<close>; \<open>host_create\<close> POSTs \<open>/host\<close> with
  \<open>json=host_params\<close>; \<open>host_delete\<close> DELETEs \<open>/host/{host_id}\<close>; \<open>host_edit\<close> POSTs
  \<open>/host/{host_id}\<close> with \<open>json=host_params\<close>; every path behind the endpoint of the
  session. \<open>get_token\<close> (with some attempt allowed) POSTs \<open>/public/token\<close> with
  \<open>json={email, password}\<close>, and when the answer has a status below 400 and a JSON body
  it returns that body whatever the headers of the answer say, since no content type is
  declared. The endpoint is \<open>/auth/v4\<close> for an \<open>AuthSession\<close> and \<open>/vm/v3\<close> for a
  \<open>VmSession\<close> built with the defaults, before and after the session is entered.
\<close>

theorem domain_methods_requests:
  assumes "self_session s = Client c" and "Closed c \<notin> set (trace s)"
    and "rq = \<lparr>req_method = POST, req_url = endpoint s @ ''/public/token'',
                req_ssl = self_ssl s,
                req_kwargs = (''json'', JDict [(''email'', JStr email),
                                               (''password'', JStr password)]) # kw\<rparr>"
  shows "trace (snd (get_key srv email_or_id kw s)) =
           trace s @ [Sent c \<lparr>req_method = POST,
                               req_url = endpoint s @ ''/user/'' @ format email_or_id @ ''/key'',
                               req_ssl = self_ssl s, req_kwargs = kw\<rparr>] \<and>
         (attempts \<noteq> 0 \<and> resp_status (srv (served s) rq) < 400 \<and>
          resp_body (srv (served s) rq) = Text j \<longrightarrow>
            get_token srv email password attempts kw s = Some (Inr j, sent c rq s)) \<and>
         trace (sent c rq s) = trace s @ [Sent c rq] \<and>
         trace (snd (whoami srv kw s)) =
           trace s @ [Sent c \<lparr>req_method = GET, req_url = endpoint s @ ''/whoami'',
                               req_ssl = self_ssl s, req_kwargs = kw\<rparr>] \<and>
         trace (snd (get_task srv task_id kw s)) =
           trace s @ [Sent c \<lparr>req_method = GET,
                               req_url = endpoint s @ ''/task/'' @ str_int task_id,
                               req_ssl = self_ssl s, req_kwargs = kw\<rparr>] \<and>
         trace (snd (host_create srv host_params kw s)) =
           trace s @ [Sent c \<lparr>req_method = POST, req_url = endpoint s @ ''/host'',
                               req_ssl = self_ssl s,
                               req_kwargs = (''json'', host_params) # kw\<rparr>] \<and>
         trace (snd (host_delete srv host_id kw s)) =
           trace s @ [Sent c \<lparr>req_method = DELETE,
                               req_url = endpoint s @ ''/host/'' @ str_int host_id,
                               req_ssl = self_ssl s, req_kwargs = kw\<rparr>] \<and>
         trace (snd (host_edit srv host_id host_params kw s)) =
           trace s @ [Sent c \<lparr>req_method = POST,
                               req_url = endpoint s @ ''/host/'' @ str_int host_id,
                               req_ssl = self_ssl s,
                               req_kwargs = (''json'', host_params) # kw\<rparr>] \<and>
         endpoint (AuthSession url Omitted Omitted sslv kw0) = ''/auth/v4'' \<and>
         endpoint (snd (aenter (AuthSession url Omitted Omitted sslv kw0))) = ''/auth/v4'' \<and>
         endpoint (VmSession url Omitted Omitted sslv kw0) = ''/vm/v3'' \<and>
         endpoint (snd (aenter (VmSession url Omitted Omitted sslv kw0))) = ''/vm/v3''"
proof -
  note live = get_live_state [OF assms(1,2)] post_live_state [OF assms(1,2)]
    delete_live_state [OF assms(1,2)]
  have rq: "rq = token_request s email password kw"
    using assms(3) by (simp add: token_request_def token_kwargs_def)
  have token: "attempts \<noteq> 0 \<and> resp_status (srv (served s) rq) < 400 \<and>
          resp_body (srv (served s) rq) = Text j \<longrightarrow>
            get_token srv email password attempts kw s = Some (Inr j, sent c rq s)"
    unfolding rq using get_token_ok_step [OF assms(1,2)] by blast
  have auth: "trace (snd (get_key srv email_or_id kw s)) =
           trace s @ [Sent c \<lparr>req_method = POST,
                               req_url = endpoint s @ ''/user/'' @ format email_or_id @ ''/key'',
                               req_ssl = self_ssl s, req_kwargs = kw\<rparr>]"
    "trace (snd (whoami srv kw s)) =
           trace s @ [Sent c \<lparr>req_method = GET, req_url = endpoint s @ ''/whoami'',
                               req_ssl = self_ssl s, req_kwargs = kw\<rparr>]"
    by (simp_all add: get_key_def whoami_def default_params_def live with_query_def
          encode_items_def request_of_def)
  have vm: "trace (snd (get_task srv task_id kw s)) =
           trace s @ [Sent c \<lparr>req_method = GET,
                               req_url = endpoint s @ ''/task/'' @ str_int task_id,
                               req_ssl = self_ssl s, req_kwargs = kw\<rparr>]"
    "trace (snd (host_create srv host_params kw s)) =
           trace s @ [Sent c \<lparr>req_method = POST, req_url = endpoint s @ ''/host'',
                               req_ssl = self_ssl s,
                               req_kwargs = (''json'', host_params) # kw\<rparr>]"
    "trace (snd (host_delete srv host_id kw s)) =
           trace s @ [Sent c \<lparr>req_method = DELETE,
                               req_url = endpoint s @ ''/host/'' @ str_int host_id,
                               req_ssl = self_ssl s, req_kwargs = kw\<rparr>]"
    "trace (snd (host_edit srv host_id host_params kw s)) =
           trace s @ [Sent c \<lparr>req_method = POST,
                               req_url = endpoint s @ ''/host/'' @ str_int host_id,
                               req_ssl = self_ssl s,
                               req_kwargs = (''json'', host_params) # kw\<rparr>]"
    by (simp_all add: get_task_def host_create_def host_delete_def host_edit_def
          default_params_def live with_query_def encode_items_def request_of_def)
  have ends: "endpoint (AuthSession url Omitted Omitted sslv kw0) = ''/auth/v4''"
    "endpoint (snd (aenter (AuthSession url Omitted Omitted sslv kw0))) = ''/auth/v4''"
    "endpoint (VmSession url Omitted Omitted sslv kw0) = ''/vm/v3''"
    "endpoint (snd (aenter (VmSession url Omitted Omitted sslv kw0))) = ''/vm/v3''"
    by (simp_all add: AuthSession_def VmSession_def BaseSession_def aenter_def endpoint_def
          default_def)
  show ?thesis
    using auth token vm ends trace_sent_request [of c rq s] by (simp only: simp_thms)
qed

theorem domain_methods_requests_witness:
  "self_session demo_auth = Client 0 \<and> Closed 0 \<notin> set (trace demo_auth) \<and>
   resp_status (backend_html (served demo_auth)
      \<lparr>req_method = POST, req_url = ''/auth/v4/public/token'', req_ssl = Some True,
       req_kwargs = [(''json'', JDict [(''email'', JStr ''admin@example.com''),
                                       (''password'', JStr ''secret'')])]\<rparr>) < 400 \<and>
   get_token backend_html ''admin@example.com'' ''secret'' 3 [] demo_auth =
     Some (Inr error_json,
       sent 0 \<lparr>req_method = POST, req_url = ''/auth/v4/public/token'', req_ssl = Some True,
               req_kwargs = [(''json'', JDict [(''email'', JStr ''admin@example.com''),
                                               (''password'', JStr ''secret'')])]\<rparr>
         demo_auth) \<and>
   trace (snd (host_delete backend_html 7 [] demo_vm)) =
     trace demo_vm @
     [Sent 0 \<lparr>req_method = DELETE, req_url = ''/vm/v3/host/7'', req_ssl = Some True,
              req_kwargs = []\<rparr>]"
proof -
  have ep: "endpoint demo_auth = ''/auth/v4''" "self_ssl demo_auth = Some True"
    by (simp_all add: demo_auth_def AuthSession_def BaseSession_def aenter_def endpoint_def
          default_def)
  have seven: "str_int 7 = ''7''" by (simp add: str_int_def str_nat.simps)
  show ?thesis
    using domain_methods_requests [OF demo_auth_live(1) demo_auth_live(2) refl,
        of backend_html "IntVal 1" "[]" 3 "''admin@example.com''" "''secret''" error_json
           1 JNone 7]
      domain_methods_requests [OF demo_vm_live(1) demo_vm_live(2) refl,
        of backend_html "IntVal 1" "[]" 3 "''admin@example.com''" "''secret''" error_json
           1 JNone 7]
    by (simp add: demo_auth_live demo_vm_live ep seven backend_html_def)
qed

section \<open>The connection context is scoped\<close>

lemma get_state_cases:
  "snd (get srv url params ct kw s) = s \<or>
   (\<exists>c rq. snd (get srv url params ct kw s) = sent c rq s)"
proof (cases params)
  case None
  then show ?thesis by (simp add: get_def urlencode_def)
next
  case (Some items)
  show ?thesis
  proof (cases "\<exists>c. self_session s = Client c \<and> Closed c \<notin> set (trace s)")
    case True
    then show ?thesis using get_live_state Some by blast
  next
    case False
    then have "snd (get srv url (Some items) ct kw s) = s"
      by (cases "self_session s")
         (auto simp: get_def urlencode_def client_request_def finish_def Let_def)
    then show ?thesis using Some by simp
  qed
qed

lemma delete_state_cases:
  "snd (delete srv url ct kw s) = s \<or> (\<exists>c rq. snd (delete srv url ct kw s) = sent c rq s)"
proof (cases "\<exists>c. self_session s = Client c \<and> Closed c \<notin> set (trace s)")
  case True
  then show ?thesis using delete_live_state by blast
next
  case False
  then have "snd (delete srv url ct kw s) = s"
    by (cases "self_session s")
       (auto simp: delete_def client_request_def finish_def Let_def)
  then show ?thesis by simp
qed

lemma run_call_state_cases:
  "snd (run_call srv call s) = s \<or> (\<exists>c rq. snd (run_call srv call s) = sent c rq s)"
proof (cases call)
  case (Get url params ct kw)
  then show ?thesis using get_state_cases [of srv url params ct kw s] by simp
next
  case (Post url ct kw)
  then show ?thesis using post_state_cases [of srv url ct kw s] by auto
next
  case (Delete url ct kw)
  then show ?thesis using delete_state_cases [of srv url ct kw s] by simp
qed

lemma only_sends_refl: "only_sends s s"
  by (simp add: only_sends_def)

lemma only_sends_sent: "only_sends s (sent c rq s)"
  by (simp add: only_sends_def sent_def)

lemma only_sends_trans: "only_sends a b \<Longrightarrow> only_sends b c \<Longrightarrow> only_sends a c"
  by (auto simp: only_sends_def)

lemma run_call_only_sends: "only_sends s (snd (run_call srv call s))"
  using run_call_state_cases [of srv call s] only_sends_refl only_sends_sent by auto

lemma run_body_only_sends: "only_sends s (snd (run_body srv calls s))"
proof (induction calls arbitrary: s)
  case Nil
  then show ?case by (simp add: only_sends_refl)
next
  case (Cons call calls)
  obtain r s1 where first: "run_call srv call s = (r, s1)" by (cases "run_call srv call s")
  have step: "only_sends s s1" using run_call_only_sends [of s srv call] first by simp
  show ?case
  proof (cases r)
    case (Inl e)
    then show ?thesis using first step by simp
  next
    case (Inr v)
    have "only_sends s1 (snd (run_body srv calls s1))" by (rule Cons.IH)
    then have "only_sends s (snd (run_body srv calls s1))" using step only_sends_trans by blast
    then show ?thesis using first Inr by (auto split: prod.splits sum.splits)
  qed
qed


lemma well_formed_new: "well_formed (BaseSession url definition' version sslv kw)"
  by (simp add: well_formed_def BaseSession_def)

lemma known_by_later: "known_by n e \<Longrightarrow> known_by (Suc n) e"
  by (cases e) simp_all

lemma well_formed_aenter: "well_formed s \<Longrightarrow> well_formed (snd (aenter s))"
  by (auto simp: well_formed_def aenter_def list_all_iff intro: known_by_later)

lemma well_formed_no_next:
  assumes "well_formed s"
  shows "Closed (next_id s) \<notin> set (trace s)"
    and "Created (next_id s) url kw \<notin> set (trace s)"
proof -
  have all: "\<forall>e \<in> set (trace s). known_by (next_id s) e"
    using assms by (simp add: well_formed_def list_all_iff)
  show "Closed (next_id s) \<notin> set (trace s)" using all by fastforce
  show "Created (next_id s) url kw \<notin> set (trace s)" using all by fastforce
qed

lemma is_Sent_not_others:
  assumes "list_all is_Sent evs"
  shows "Closed c \<notin> set evs" and "Created c url kw \<notin> set evs"
  using assms by (auto simp: list_all_iff)

lemma count_list_absent: "x \<notin> set xs \<Longrightarrow> count_list xs x = 0"
  by (induction xs) auto

lemma verbs_after_exit:
  assumes "self_session s = PyNone"
  shows "get srv url (Some items) ct kw s = (Inl AttributeError, s)"
    and "post srv url ct kw s = (Inl AttributeError, s)"
    and "delete srv url ct kw s = (Inl AttributeError, s)"
  using assms by (simp_all add: get_def post_def delete_def urlencode_def Let_def)

lemma async_with_run:
  assumes "well_formed s"
  shows "\<exists>evs. list_all is_Sent evs \<and>
           async_with (run_body srv calls) s =
             (fst (run_body srv calls (snd (aenter s))),
              (snd (run_body srv calls (snd (aenter s))))
                \<lparr>self_session := PyNone,
                 trace := trace s @ Created (next_id s) (self_url s) (self_kwargs s) # evs @
                          [Closed (next_id s)]\<rparr>)"
proof -
  let ?c = "next_id s"
  let ?s1 = "s\<lparr>self_session := Client ?c, next_id := Suc ?c,
               trace := trace s @ [Created ?c (self_url s) (self_kwargs s)]\<rparr>"
  have enter: "aenter s = (Inr (), ?s1)" by (simp add: aenter_def)
  have s1: "self_session ?s1 = Client ?c"
    "trace ?s1 = trace s @ [Created ?c (self_url s) (self_kwargs s)]"
    by simp_all
  obtain r s2 where body: "run_body srv calls ?s1 = (r, s2)"
    by (cases "run_body srv calls ?s1")
  have "only_sends ?s1 (snd (run_body srv calls ?s1))" by (rule run_body_only_sends)
  then have "only_sends ?s1 s2" by (simp only: body snd_conv)
  then obtain evs where evs: "list_all is_Sent evs" "trace s2 = trace ?s1 @ evs"
    and same: "self_session s2 = self_session ?s1"
    by (auto simp: only_sends_def)
  have open_still: "Closed ?c \<notin> set (trace s2)"
    using well_formed_no_next(1) [OF assms] is_Sent_not_others(1) [OF evs(1)] evs(2) s1(2)
    by simp
  have exit: "aexit s2 =
     (Inr (), s2\<lparr>self_session := PyNone, trace := trace s2 @ [Closed ?c]\<rparr>)"
    using same s1(1) open_still by (simp add: aexit_def)
  have whole: "async_with (run_body srv calls) s =
      (r, s2\<lparr>self_session := PyNone, trace := trace s2 @ [Closed ?c]\<rparr>)"
    by (simp only: async_with_def enter body exit prod.case sum.case)
  have tr: "trace s2 @ [Closed ?c] =
            trace s @ Created ?c (self_url s) (self_kwargs s) # evs @ [Closed ?c]"
    using evs(2) s1(2) by simp
  have inner: "run_body srv calls (snd (aenter s)) = (r, s2)"
    by (simp only: enter snd_conv body)
  have "async_with (run_body srv calls) s =
      (fst (run_body srv calls (snd (aenter s))),
       (snd (run_body srv calls (snd (aenter s))))
         \<lparr>self_session := PyNone,
          trace := trace s @ Created ?c (self_url s) (self_kwargs s) # evs @ [Closed ?c]\<rparr>)"
    by (simp only: whole inner tr fst_conv snd_conv)
  then show ?thesis using evs(1) by blast
qed

text \<open>
  C8. Let \<open>async with session\<close> run a body of verb calls, from a state in which every
  connection context named in the trace is an earlier one. Then the result is the
  result of the body, be it a value or an exception; the trace gains the creation of a
  new connection context, the requests of the body, and the closing of that context;
  the context is created once and closed once; \<open>_session\<close> is \<open>None\<close> afterwards, and
  each verb called then fails with \<open>AttributeError\<close> and leaves the state as it is, so
  that no request is sent.
\<close>

theorem connection_context_is_scoped:
  assumes "well_formed s"
    and "s' = snd (async_with (run_body srv calls) s)"
    and "c = next_id s"
  shows "fst (async_with (run_body srv calls) s) = fst (run_body srv calls (snd (aenter s))) \<and>
         (\<exists>evs. list_all is_Sent evs \<and>
                trace s' = trace s @ Created c (self_url s) (self_kwargs s) # evs @ [Closed c]) \<and>
         count_list (trace s') (Created c (self_url s) (self_kwargs s)) = 1 \<and>
         count_list (trace s') (Closed c) = 1 \<and>
         self_session s' = PyNone \<and>
         get srv' url (Some items) ct kw s' = (Inl AttributeError, s') \<and>
         post srv' url ct kw s' = (Inl AttributeError, s') \<and>
         delete srv' url ct kw s' = (Inl AttributeError, s')"
proof -
  obtain evs where evs: "list_all is_Sent evs"
    and run: "async_with (run_body srv calls) s =
             (fst (run_body srv calls (snd (aenter s))),
              (snd (run_body srv calls (snd (aenter s))))
                \<lparr>self_session := PyNone,
                 trace := trace s @ Created c (self_url s) (self_kwargs s) # evs @ [Closed c]\<rparr>)"
    using async_with_run [OF assms(1), of srv calls] assms(3) by blast
  have result: "fst (async_with (run_body srv calls) s) =
                fst (run_body srv calls (snd (aenter s)))"
    using run by simp
  have tr: "trace s' = trace s @ Created c (self_url s) (self_kwargs s) # evs @ [Closed c]"
    and none: "self_session s' = PyNone"
    using run assms(2) by simp_all
  have created: "count_list (trace s') (Created c (self_url s) (self_kwargs s)) = 1"
    using well_formed_no_next(2) [OF assms(1)] is_Sent_not_others(2) [OF evs] assms(3)
    by (simp add: tr count_list_absent)
  have closed: "count_list (trace s') (Closed c) = 1"
    using well_formed_no_next(1) [OF assms(1)] is_Sent_not_others(1) [OF evs] assms(3)
    by (simp add: tr count_list_absent)
  show ?thesis
    using result evs tr created closed none verbs_after_exit [OF none] by blast
qed

theorem connection_context_is_scoped_witness:
  "well_formed demo_new \<and>
   fst (async_with (run_body (backend_404 (Text error_json)) demo_calls) demo_new) =
     Inl (ClientResponseError 404 ''Not Found'' [(''Content-Type'', ''application/json'')]) \<and>
   trace (snd (async_with (run_body (backend_404 (Text error_json)) demo_calls) demo_new)) =
     [Created 0 ''https://vm.example.com'' [],
      Sent 0 \<lparr>req_method = GET, req_url = ''/vm/v3/task/1'', req_ssl = Some True,
              req_kwargs = []\<rparr>,
      Closed 0] \<and>
   count_list
     (trace (snd (async_with (run_body (backend_404 (Text error_json)) demo_calls) demo_new)))
     (Closed 0) = 1 \<and>
   post backend_html ''/host'' None []
     (snd (async_with (run_body (backend_404 (Text error_json)) demo_calls) demo_new)) =
     (Inl AttributeError,
      snd (async_with (run_body (backend_404 (Text error_json)) demo_calls) demo_new))"
proof -
  have wf: "well_formed demo_new"
    by (simp add: demo_new_def VmSession_def BaseSession_def well_formed_def)
  have fresh: "next_id demo_new = 0"
    by (simp add: demo_new_def VmSession_def BaseSession_def)
  have run: "async_with (run_body (backend_404 (Text error_json)) demo_calls) demo_new =
     (Inl (ClientResponseError 404 ''Not Found'' [(''Content-Type'', ''application/json'')]),
      demo_new\<lparr>self_session := PyNone, next_id := 1, served := 1,
        trace := [Created 0 ''https://vm.example.com'' [],
                  Sent 0 \<lparr>req_method = GET, req_url = ''/vm/v3/task/1'', req_ssl = Some True,
                          req_kwargs = []\<rparr>,
                  Closed 0]\<rparr>)"
    by (simp add: async_with_def aenter_def aexit_def demo_calls_def demo_new_def VmSession_def
          BaseSession_def default_def get_def urlencode_def encode_items_def
          default_params_def with_query_def endpoint_def client_request_def sent_def
          finish_def raise_for_status_def backend_404_def Let_def)
  show ?thesis
    using connection_context_is_scoped [OF wf refl refl,
        of "backend_404 (Text error_json)" demo_calls backend_html "''/host''" "[]" None "[]"]
    by (simp add: wf run fresh)
qed

section \<open>The configuration does not change\<close>

lemma config_steps [simp]:
  "config (sent c rq s) = config s"
  "config (sleep n s) = config s"
  "config (print x s) = config s"
  by (simp_all add: config_def sent_def sleep_def print_def)

lemma config_verbs:
  "config (snd (get srv url params ct kw s)) = config s"
  "config (snd (post srv url ct kw s)) = config s"
  "config (snd (delete srv url ct kw s)) = config s"
  using get_state_cases [of srv url params ct kw s] post_state_cases [of srv url ct kw s]
    delete_state_cases [of srv url ct kw s]
  by auto

lemma config_get_token:
  assumes "get_token srv email password attempts kw s = Some y"
  shows "config (snd y) = config s"
  by (rule get_token_keeps [where R = "\<lambda>a b. config b = config a", OF _ _ _ _ _ assms])
     (simp_all add: config_verbs)

text \<open>
  C9. Every operation returns a state with the configuration it found: the base URL,
  the definition, the version, the TLS flag and the transport options are the same after
  \<open>get\<close>, \<open>post\<close>, \<open>delete\<close>, after each domain method (for \<open>get_token\<close>, whenever
  it returns), and after entering and leaving the session. The endpoint is always \<open>/\<close>,
  the definition, \<open>/\<close>, the version, and the constructor stores what it is given.
\<close>

theorem configuration_is_kept:
  "config (snd (get srv url params ct kw s)) = config s \<and>
   config (snd (post srv url ct kw s)) = config s \<and>
   config (snd (delete srv url ct kw s)) = config s \<and>
   config (snd (get_key srv email_or_id kw s)) = config s \<and>
   (get_token srv email password attempts kw s = Some y \<longrightarrow> config (snd y) = config s) \<and>
   config (snd (whoami srv kw s)) = config s \<and>
   config (snd (get_task srv task_id kw s)) = config s \<and>
   config (snd (get_task_by_consul_id srv consul_id kw s)) = config s \<and>
   config (snd (host_create srv host_params kw s)) = config s \<and>
   config (snd (host_delete srv host_id kw s)) = config s \<and>
   config (snd (host_edit srv host_id host_params kw s)) = config s \<and>
   config (snd (aenter s)) = config s \<and>
   config (snd (aexit s)) = config s \<and>
   endpoint s = ''/'' @ self_definition s @ ''/'' @ self_version s \<and>
   config (BaseSession base definition' version (Given sslv) kw0) =
     (base, definition', version, sslv, kw0)"
proof -
  have verbs: "config (snd (get srv url params ct kw s)) = config s"
    "config (snd (post srv url ct kw s)) = config s"
    "config (snd (delete srv url ct kw s)) = config s"
    by (rule config_verbs)+
  have domain: "config (snd (get_key srv email_or_id kw s)) = config s"
    "config (snd (whoami srv kw s)) = config s"
    "config (snd (get_task srv task_id kw s)) = config s"
    "config (snd (get_task_by_consul_id srv consul_id kw s)) = config s"
    "config (snd (host_create srv host_params kw s)) = config s"
    "config (snd (host_delete srv host_id kw s)) = config s"
    "config (snd (host_edit srv host_id host_params kw s)) = config s"
    by (simp_all only: get_key_def whoami_def get_task_def get_task_by_consul_id_state
          host_create_def host_delete_def host_edit_def config_verbs)
  have token: "get_token srv email password attempts kw s = Some y \<longrightarrow> config (snd y) = config s"
    using config_get_token by blast
  have scope: "config (snd (aenter s)) = config s" "config (snd (aexit s)) = config s"
    by (simp_all add: aenter_def aexit_def config_def split: attr.splits)
  have ends: "endpoint s = ''/'' @ self_definition s @ ''/'' @ self_version s"
    "config (BaseSession base definition' version (Given sslv) kw0) =
       (base, definition', version, sslv, kw0)"
    by (simp_all add: endpoint_def config_def BaseSession_def default_def)
  show ?thesis
    using verbs domain token scope ends by (simp only: simp_thms)
qed

theorem configuration_is_kept_witness:
  "get_token backend_html ''admin@example.com'' ''secret'' 1 [] demo_auth =
     Some (Inr error_json,
           sent 0 (token_request demo_auth ''admin@example.com'' ''secret'' []) demo_auth) \<and>
   config (sent 0 (token_request demo_auth ''admin@example.com'' ''secret'' []) demo_auth) =
     (''https://vm.example.com'', ''auth'', ''v4'', Some True, []) \<and>
   config demo_auth = (''https://vm.example.com'', ''auth'', ''v4'', Some True, [])"
proof -
  have tok: "get_token backend_html ''admin@example.com'' ''secret'' 1 [] demo_auth =
     Some (Inr error_json,
           sent 0 (token_request demo_auth ''admin@example.com'' ''secret'' []) demo_auth)"
    using get_token_ok_step [OF demo_auth_live(1) demo_auth_live(2),
        of backend_html "''admin@example.com''" "''secret''" "[]" error_json 1]
    by (simp add: backend_html_def)
  have cfg: "config demo_auth = (''https://vm.example.com'', ''auth'', ''v4'', Some True, [])"
    by (simp add: config_def demo_auth_def AuthSession_def BaseSession_def aenter_def
          default_def)
  show ?thesis
    using configuration_is_kept
      [of backend_html "''/x''" None None "[]" demo_auth "IntVal 1"
          "''admin@example.com''" "''secret''" 1
          "(Inr error_json,
            sent 0 (token_request demo_auth ''admin@example.com'' ''secret'' []) demo_auth)"]
      tok cfg
    by simp
qed

end
